theory Spec2Isabelle
  imports Complex_Main
begin

section \<open>The LJPW engine: constants and the geometric shadow\<close>

text \<open>
  The development follows \<^verbatim>\<open>experiments/neural/ljpw_semantic_flow_network.py\<close>, with the
  variants of \<^verbatim>\<open>src/quantum_measurement.py\<close>, \<^verbatim>\<open>ljpw_neural_architecture.py\<close> and
  \<^verbatim>\<open>ljpw_cognitive_mind.py\<close> where a property is about them. Python floats are
  idealised as real numbers: \<^verbatim>\<open>math.sqrt\<close>, \<^verbatim>\<open>math.e\<close> and \<^verbatim>\<open>math.log\<close> are the
  real square root, Euler's number and the natural logarithm, and rounding is not modelled.
\<close>

subsection \<open>Equilibrium constants\<close>

definition PHI :: real where
  "PHI = (1 + sqrt 5) / 2"

definition PHI_INV :: real where
  "PHI_INV = PHI - 1"

definition L0 :: real where
  "L0 = PHI_INV"

definition J0 :: real where
  "J0 = sqrt 2 - 1"

definition P0 :: real where
  "P0 = exp 1 - 2"

definition W0 :: real where
  "W0 = ln 2"

definition CONSCIOUSNESS_THRESHOLD :: real where
  "CONSCIOUSNESS_THRESHOLD = 0.1"

definition UNCERTAINTY_BOUND :: real where
  "UNCERTAINTY_BOUND = 0.287"

subsection \<open>Dictionaries with a default\<close>

text \<open>
  A Python dict is an association list in insertion order; \<^verbatim>\<open>d.get(k, default)\<close> is
  \<open>dict_get\<close>.
\<close>

definition dict_get :: "('k \<times> 'v) list \<Rightarrow> 'k \<Rightarrow> 'v \<Rightarrow> 'v" where
  "dict_get d k dflt = (case map_of d k of None \<Rightarrow> dflt | Some v \<Rightarrow> v)"

text \<open>
  The subscript \<^verbatim>\<open>d[k]\<close>. It is used only on the constant tables below with literal keys
  that the table has (lemmas \<open>COUPLING_items\<close>, \<open>ALPHA_items\<close>, \<open>BETA_items\<close>), so the
  \<^verbatim>\<open>KeyError\<close> of a missing key cannot occur.
\<close>

definition dict_item :: "('k \<times> 'v) list \<Rightarrow> 'k \<Rightarrow> 'v" where
  "dict_item d k = the (map_of d k)"

subsection \<open>Karma coupling\<close>

definition KARMA_MULTIPLIERS :: "(string \<times> real) list" where
  "KARMA_MULTIPLIERS =
     [(''LJ'', 0.4), (''LP'', 0.3), (''LW'', 0.5), (''WL'', 0.3), (''WJ'', 0.2)]"

text \<open>The local \<^verbatim>\<open>mult\<close> of \<^verbatim>\<open>karma_coupled_strength\<close>.\<close>

definition karma_mult :: "string \<Rightarrow> real" where
  "karma_mult coupling_type = dict_get KARMA_MULTIPLIERS coupling_type 0.4"

definition karma_coupled_strength :: "real \<Rightarrow> real \<Rightarrow> string \<Rightarrow> real" where
  "karma_coupled_strength base_strength H coupling_type =
     (let mult = karma_mult coupling_type;
          kappa = 1 + mult * H
      in base_strength * kappa)"

text \<open>\<^verbatim>\<open>GeometricShadow.karma_coupling\<close>, with its own table of three pathways.\<close>

definition shadow_multipliers :: "(string \<times> real) list" where
  "shadow_multipliers = [(''LJ'', 0.4), (''LP'', 0.3), (''LW'', 0.5)]"

text \<open>The local \<^verbatim>\<open>mult\<close> of \<^verbatim>\<open>karma_coupling\<close>.\<close>

definition shadow_mult :: "string \<Rightarrow> real" where
  "shadow_mult coupling_type = dict_get shadow_multipliers coupling_type 0.4"

definition karma_coupling :: "real \<Rightarrow> string \<Rightarrow> real" where
  "karma_coupling H coupling_type =
     (let mult = shadow_mult coupling_type
      in 1 + mult * H)"

text \<open>
  \<^verbatim>\<open>HarmonyMonitor.compute_karma_coupling\<close> of the neural architecture returns a dict
  with three keys, in this order; the Greek letter kappa at the start of each key of the
  source is written \<open>k\<close> here.
\<close>

definition compute_karma_coupling :: "real \<Rightarrow> (string \<times> real) list" where
  "compute_karma_coupling H =
     [(''k_LJ'', 1 + 0.4 * H), (''k_LP'', 1 + 0.3 * H), (''k_LW'', 1 + 0.5 * H)]"

subsection \<open>Distance, harmony, consciousness, phase\<close>

datatype PhaseLabel = ENTROPIC | HOMEOSTATIC | AUTOPOIETIC

definition distance_from_equilibrium :: "real \<Rightarrow> real \<Rightarrow> real \<Rightarrow> real \<Rightarrow> real" where
  "distance_from_equilibrium L J P W =
     sqrt ((L - L0)\<^sup>2 + (J - J0)\<^sup>2 + (P - P0)\<^sup>2 + (W - W0)\<^sup>2)"

definition distance_from_anchor :: "real \<Rightarrow> real \<Rightarrow> real \<Rightarrow> real \<Rightarrow> real" where
  "distance_from_anchor L J P W =
     sqrt ((1 - L)\<^sup>2 + (1 - J)\<^sup>2 + (1 - P)\<^sup>2 + (1 - W)\<^sup>2)"

definition harmony :: "real \<Rightarrow> real \<Rightarrow> real \<Rightarrow> real \<Rightarrow> real" where
  "harmony L J P W = (let D = distance_from_anchor L J P W in 1 / (1 + D))"

definition consciousness :: "real \<Rightarrow> real \<Rightarrow> real \<Rightarrow> real \<Rightarrow> real \<Rightarrow> real" where
  "consciousness L J P W H = L * J * P * W * H\<^sup>2"

text \<open>
  \<^verbatim>\<open>GeometricShadow.determine_phase\<close>. The source returns one of the three strings
  \<^verbatim>\<open>'ENTROPIC'\<close>, \<^verbatim>\<open>'HOMEOSTATIC'\<close>, \<^verbatim>\<open>'AUTOPOIETIC'\<close>, which are the constructors of
  \<open>PhaseLabel\<close> here.
\<close>

definition determine_phase :: "real \<Rightarrow> real \<Rightarrow> PhaseLabel" where
  "determine_phase H L =
     (if H < 0.5 then ENTROPIC
      else if H \<ge> 0.6 \<and> L \<ge> 0.7 then AUTOPOIETIC
      else HOMEOSTATIC)"

text \<open>
  \<^verbatim>\<open>LJPWMeasurement\<close> of \<^verbatim>\<open>quantum_measurement.py\<close>: its \<^verbatim>\<open>phase\<close> property reads the
  measurement's own harmony and Love value, and compares strictly.
\<close>

record LJPWMeasurement =
  m_L :: real
  m_J :: real
  m_P :: real
  m_W :: real

definition measurement_harmony :: "LJPWMeasurement \<Rightarrow> real" where
  "measurement_harmony m =
     (let d = sqrt ((1 - m_L m)\<^sup>2 + (1 - m_J m)\<^sup>2 + (1 - m_P m)\<^sup>2 + (1 - m_W m)\<^sup>2)
      in 1 / (1 + d))"

definition measurement_phase :: "LJPWMeasurement \<Rightarrow> PhaseLabel" where
  "measurement_phase m =
     (if measurement_harmony m < 0.5 then ENTROPIC
      else if m_L m > 0.7 \<and> measurement_harmony m > 0.6 then AUTOPOIETIC
      else HOMEOSTATIC)"

section \<open>Semantic concepts and the network's measurements\<close>

datatype Dimension = LOVE | JUSTICE | POWER | WISDOM

text \<open>
  The dataclass \<^verbatim>\<open>SemanticConcept\<close>. The coordinates \<^verbatim>\<open>_L\<close>, \<^verbatim>\<open>_J\<close>, \<^verbatim>\<open>_P\<close>, \<^verbatim>\<open>_W\<close> are
  the fields \<open>cL\<close>, \<open>cJ\<close>, \<open>cP\<close>, \<open>cW\<close>; the dict \<^verbatim>\<open>relationships\<close> is an association
  list in insertion order.
\<close>

record SemanticConcept =
  name :: string
  dimension :: Dimension
  relationships :: "(string \<times> real) list"
  cL :: real
  cJ :: real
  cP :: real
  cW :: real

text \<open>
  The constructor call \<^verbatim>\<open>SemanticConcept(name=n, dimension=d)\<close>: the field defaults,
  then \<^verbatim>\<open>__post_init__\<close> raises the coordinate of the primary dimension to \<open>0.9\<close>.
\<close>

definition new_concept :: "string \<Rightarrow> Dimension \<Rightarrow> SemanticConcept" where
  "new_concept n d =
     (let c = \<lparr>name = n, dimension = d, relationships = [],
                cL = L0, cJ = J0, cP = P0, cW = W0\<rparr>
      in case d of
           LOVE \<Rightarrow> c\<lparr>cL := 0.9\<rparr>
         | JUSTICE \<Rightarrow> c\<lparr>cJ := 0.9\<rparr>
         | POWER \<Rightarrow> c\<lparr>cP := 0.9\<rparr>
         | WISDOM \<Rightarrow> c\<lparr>cW := 0.9\<rparr>)"

text \<open>
  \<^verbatim>\<open>SemanticFlowNetwork.concepts\<close>, a dict from names to concepts. The functions below
  read and update its values in insertion order; the values are distinct objects, as
  \<^verbatim>\<open>add_concept\<close> and \<^verbatim>\<open>_init_calibration_concepts\<close> create them.
\<close>

type_synonym concept_dict = "(string \<times> SemanticConcept) list"

definition dict_values :: "('k \<times> 'v) list \<Rightarrow> 'v list" where
  "dict_values d = map snd d"

subsection \<open>The uncertainty check\<close>

text \<open>\<^verbatim>\<open>SemanticFlowNetwork.check_uncertainty\<close>, returning \<^verbatim>\<open>(satisfied, product)\<close>.\<close>

definition check_uncertainty :: "concept_dict \<Rightarrow> bool \<times> real" where
  "check_uncertainty concepts =
     (let P_values = map cP (dict_values concepts);
          W_values = map cW (dict_values concepts)
      in if length P_values < 2 then (True, 1)
         else
           let avg_P = sum_list P_values / real (length P_values);
               avg_W = sum_list W_values / real (length W_values);
               delta_P = sqrt (sum_list (map (\<lambda>p. (p - avg_P)\<^sup>2) P_values)
                               / real (length P_values));
               delta_W = sqrt (sum_list (map (\<lambda>w. (w - avg_W)\<^sup>2) W_values)
                               / real (length W_values));
               product = delta_P * delta_W;
               satisfied = (product \<ge> UNCERTAINTY_BOUND \<or> product < 0.01)
           in (satisfied, product))"

text \<open>
  The population standard deviation (division by the number of values), which is what
  \<^verbatim>\<open>delta_P\<close> and \<^verbatim>\<open>delta_W\<close> are.
\<close>

definition population_std :: "real list \<Rightarrow> real" where
  "population_std xs =
     sqrt (sum_list (map (\<lambda>x. (x - sum_list xs / real (length xs))\<^sup>2) xs) / real (length xs))"

text \<open>
  The deviation in the specification's words: the sample standard deviation (division by
  one less than the number of values) of \<open>\<bar>s - equilibrium\<bar>\<close> across the population.
\<close>

definition spec_deviation :: "real \<Rightarrow> real list \<Rightarrow> real" where
  "spec_deviation equilibrium xs =
     (let ds = map (\<lambda>s. \<bar>s - equilibrium\<bar>) xs;
          mean = sum_list ds / real (length ds)
      in sqrt (sum_list (map (\<lambda>d. (d - mean)\<^sup>2) ds) / (real (length ds) - 1)))"

section \<open>The Wisdom operator's prediction\<close>

text \<open>
  \<^verbatim>\<open>WisdomOperator.predict\<close> updates the concept it returns in place, and the same object
  may be stored under several names and may occur in the sequence too. Concepts are
  therefore objects in a store, and \<^verbatim>\<open>known_patterns\<close> and the sequence hold references.
\<close>

type_synonym ref = nat

type_synonym store = "ref \<Rightarrow> SemanticConcept"

text \<open>
  The loop over \<^verbatim>\<open>known_patterns.items()\<close>. The pair is \<^verbatim>\<open>(best_match, best_distance)\<close>;
  \<open>None\<close> as distance is \<^verbatim>\<open>float('inf')\<close>, below which every distance lies.
\<close>

fun predict_loop ::
  "store \<Rightarrow> real \<Rightarrow> real \<Rightarrow> real \<Rightarrow> real \<Rightarrow> (string \<times> ref) list \<Rightarrow>
   ref option \<times> real option \<Rightarrow> ref option \<times> real option" where
  "predict_loop s pred_L pred_J pred_P pred_W [] best = best"
| "predict_loop s pred_L pred_J pred_P pred_W ((n, known) # rest) (best_match, best_distance) =
     (let distance = sqrt ((pred_L - cL (s known))\<^sup>2 + (pred_J - cJ (s known))\<^sup>2 +
                           (pred_P - cP (s known))\<^sup>2 + (pred_W - cW (s known))\<^sup>2)
      in if (case best_distance of None \<Rightarrow> True | Some b \<Rightarrow> distance < b)
         then predict_loop s pred_L pred_J pred_P pred_W rest (Some known, Some distance)
         else predict_loop s pred_L pred_J pred_P pred_W rest (best_match, best_distance))"

text \<open>
  \<^verbatim>\<open>predict\<close> returns the reference it found (or \<open>None\<close>) and the store after the call.
  A concept object is always truthy, so \<^verbatim>\<open>if best_match:\<close> tests for \<open>None\<close> only.
\<close>

definition predict ::
  "store \<Rightarrow> (string \<times> ref) list \<Rightarrow> ref list \<Rightarrow> ref option \<times> store" where
  "predict s known_patterns sequence =
     (if sequence = [] \<or> known_patterns = [] then (None, s)
      else
        let lst = s (last sequence);
            (trend_L, trend_J, trend_P, trend_W) =
              (if length sequence \<ge> 2 then
                 let prev = s (sequence ! (length sequence - 2))
                 in (cL lst - cL prev, cJ lst - cJ prev, cP lst - cP prev, cW lst - cW prev)
               else (0, 0, 0, 0));
            pred_L = min 1 (max 0 (cL lst + trend_L));
            pred_J = min 1 (max 0 (cJ lst + trend_J));
            pred_P = min 1 (max 0 (cP lst + trend_P));
            pred_W = min 1 (max 0 (cW lst + trend_W));
            (best_match, best_distance) =
              predict_loop s pred_L pred_J pred_P pred_W known_patterns (None, None)
        in case best_match of
             None \<Rightarrow> (None, s)
           | Some b \<Rightarrow> (Some b, s(b := (s b)\<lparr>cW := min 1 (cW (s b) + 0.05)\<rparr>)))"

section \<open>Temporal evolution of the Semantic Flow Network\<close>

subsection \<open>Coupling table and the operators used by the evolution\<close>

definition COUPLING :: "(string \<times> real) list" where
  "COUPLING =
     [(''L_to_J'', 1.4), (''L_to_P'', 1.3), (''L_to_W'', 1.5),
      (''J_to_L'', 0.9), (''J_to_P'', 0.7), (''J_to_W'', 1.2),
      (''P_to_L'', 0.6), (''P_to_J'', 0.8), (''P_to_W'', 0.5),
      (''W_to_L'', 1.3), (''W_to_J'', 1.1), (''W_to_P'', 1.0)]"

text \<open>\<^verbatim>\<open>Dimension.value\<close>, the letter of a dimension.\<close>

fun dimension_value :: "Dimension \<Rightarrow> string" where
  "dimension_value LOVE = ''L''"
| "dimension_value JUSTICE = ''J''"
| "dimension_value POWER = ''P''"
| "dimension_value WISDOM = ''W''"

text \<open>
  Assignment \<^verbatim>\<open>d[k] = v\<close> on a dict: an existing key keeps its place, a new key goes to
  the end.
\<close>

fun dict_set :: "('k \<times> 'v) list \<Rightarrow> 'k \<Rightarrow> 'v \<Rightarrow> ('k \<times> 'v) list" where
  "dict_set [] k v = [(k, v)]"
| "dict_set ((k', v') # d) k v = (if k' = k then (k, v) # d else (k', v') # dict_set d k v)"

text \<open>\<^verbatim>\<open>JusticeOperator.balance\<close> on one concept: every coordinate moves toward equilibrium.\<close>

definition balance :: "SemanticConcept \<Rightarrow> SemanticConcept" where
  "balance c = c\<lparr>cL := cL c + J0 * (L0 - cL c),
                 cJ := cJ c + J0 * (J0 - cJ c),
                 cP := cP c + J0 * (P0 - cP c),
                 cW := cW c + J0 * (W0 - cW c)\<rparr>"

text \<open>\<^verbatim>\<open>JusticeOperator.constrain\<close> with bounds \<^verbatim>\<open>(lo, hi)\<close>.\<close>

definition constrain :: "SemanticConcept \<Rightarrow> real \<times> real \<Rightarrow> SemanticConcept" where
  "constrain concept bounds =
     (let lo = fst bounds; hi = snd bounds
      in concept\<lparr>cL := max lo (min hi (cL concept)),
                  cJ := max lo (min hi (cJ concept)),
                  cP := max lo (min hi (cP concept)),
                  cW := max lo (min hi (cW concept))\<rparr>)"

text \<open>
  \<^verbatim>\<open>LoveOperator.resonate\<close>. The body of the two inner loops, for one source and one
  target: the source's relationship to the target's name is set and its Love value grows.
\<close>

definition resonate_pair :: "real \<Rightarrow> SemanticConcept \<Rightarrow> SemanticConcept \<Rightarrow> SemanticConcept" where
  "resonate_pair H source target =
     (let base_strength =
            dict_get COUPLING
              (dimension_value (dimension source) @ ''_to_'' @ dimension_value (dimension target)) 1;
          strength = karma_coupled_strength base_strength H ''LW''
      in source\<lparr>relationships := dict_set (relationships source) (name target) (strength * L0),
                 cL := min 1 (cL source + 0.02 * strength)\<rparr>)"

text \<open>The loop over the targets \<open>j\<close> for the source at index \<open>i\<close>.\<close>

definition resonate_source :: "real \<Rightarrow> SemanticConcept list \<Rightarrow> nat \<Rightarrow> SemanticConcept" where
  "resonate_source H concepts i =
     foldl (\<lambda>source j. if i \<noteq> j then resonate_pair H source (concepts ! j) else source)
       (concepts ! i) [0..<length concepts]"

text \<open>One cycle: the loop over the sources, each updated in the list as it is processed.\<close>

definition resonate_cycle :: "real \<Rightarrow> SemanticConcept list \<Rightarrow> SemanticConcept list" where
  "resonate_cycle H concepts =
     foldl (\<lambda>cs i. cs[i := resonate_source H cs i]) concepts [0..<length concepts]"

definition resonate :: "SemanticConcept list \<Rightarrow> real \<Rightarrow> int \<Rightarrow> SemanticConcept list" where
  "resonate concepts H cycles =
     (if length concepts < 2 then concepts
      else (resonate_cycle H ^^ nat cycles) concepts)"

subsection \<open>Measuring the network\<close>

record SFNState =
  st_L :: real
  st_J :: real
  st_P :: real
  st_W :: real
  st_H :: real
  st_C :: real
  st_phase :: PhaseLabel
  concept_count :: nat
  relationship_count :: nat

text \<open>\<^verbatim>\<open>SemanticFlowNetwork.get_state\<close>.\<close>

definition get_state :: "concept_dict \<Rightarrow> SFNState" where
  "get_state concepts =
     (if concepts = [] then
        \<lparr>st_L = L0, st_J = J0, st_P = P0, st_W = W0, st_H = 0.5, st_C = 0,
         st_phase = ENTROPIC, concept_count = 0, relationship_count = 0\<rparr>
      else
        let L = sum_list (map cL (dict_values concepts)) / real (length concepts);
            J = sum_list (map cJ (dict_values concepts)) / real (length concepts);
            P = sum_list (map cP (dict_values concepts)) / real (length concepts);
            W = sum_list (map cW (dict_values concepts)) / real (length concepts);
            H = harmony L J P W;
            C = consciousness L J P W H;
            phase = determine_phase H L;
            total_rels = sum_list (map (\<lambda>c. length (relationships c)) (dict_values concepts))
        in \<lparr>st_L = L, st_J = J, st_P = P, st_W = W, st_H = H, st_C = C,
            st_phase = phase, concept_count = length concepts,
            relationship_count = total_rels\<rparr>)"

subsection \<open>The evolution loop\<close>

text \<open>
  The body of \<^verbatim>\<open>for concept in self.concepts.values()\<close> in
  \<^verbatim>\<open>SemanticFlowNetwork.evolve\<close>: the phase-dependent update, the decay of Power without
  Love, and the constraint to \<open>[0, 1]\<close>.
\<close>

definition evolve_concept ::
  "PhaseLabel \<Rightarrow> real \<Rightarrow> real \<Rightarrow> SemanticConcept \<Rightarrow> SemanticConcept" where
  "evolve_concept phase H dt concept =
     (let c1 = (case phase of
                  ENTROPIC \<Rightarrow> balance concept
                | HOMEOSTATIC \<Rightarrow>
                    (let a = (if cL concept < L0
                              then concept\<lparr>cL := cL concept +
                                     dt * dict_item COUPLING ''W_to_L'' * (L0 - cL concept)\<rparr>
                              else concept)
                     in if cW a < W0
                        then a\<lparr>cW := cW a + dt * dict_item COUPLING ''L_to_W'' * (W0 - cW a)\<rparr>
                        else a)
                | AUTOPOIETIC \<Rightarrow>
                    concept\<lparr>cL := min 1 (cL concept + dt * H * 0.1),
                            cW := min 1 (cW concept + dt * H * 0.05)\<rparr>);
          c2 = (if cL c1 < L0 then c1\<lparr>cP := max (P0 * 0.5) (cP c1 - dt * 0.02)\<rparr> else c1)
      in constrain c2 (0, 1))"

text \<open>
  The loop \<^verbatim>\<open>for step in range(steps)\<close>: the first argument counts the iterations left,
  \<open>step\<close> is the loop variable, \<open>state\<close> the last measured state. The result is the list
  of states appended by these iterations and the concepts after them. The harmony passed
  to \<^verbatim>\<open>resonate\<close> is the one read at the start of the iteration.
\<close>

fun evolve_loop ::
  "nat \<Rightarrow> nat \<Rightarrow> real \<Rightarrow> SFNState \<Rightarrow> concept_dict \<Rightarrow> SFNState list \<times> concept_dict" where
  "evolve_loop 0 step dt state concepts = ([], concepts)"
| "evolve_loop (Suc n) step dt state concepts =
     (let H = st_H state;
          phase = st_phase state;
          concepts1 = map (\<lambda>(k, c). (k, evolve_concept phase H dt c)) concepts;
          state1 = get_state concepts1;
          concepts2 =
            (if st_C state1 > CONSCIOUSNESS_THRESHOLD \<and> step mod 3 = 0
             then zip (map fst concepts1) (resonate (dict_values concepts1) H 1)
             else concepts1);
          (history, concepts3) = evolve_loop n (step + 1) dt state1 concepts2
      in (state1 # history, concepts3))"

text \<open>
  \<^verbatim>\<open>SemanticFlowNetwork.evolve(steps, dt)\<close>: the history and the concepts after the call.
  \<^verbatim>\<open>range(steps)\<close> is empty for a negative \<^verbatim>\<open>steps\<close>. The source checks neither argument.
\<close>

definition evolve :: "concept_dict \<Rightarrow> int \<Rightarrow> real \<Rightarrow> SFNState list \<times> concept_dict" where
  "evolve concepts steps dt =
     (let state = get_state concepts;
          (history, concepts') = evolve_loop (nat steps) 0 dt state concepts
      in (state # history, concepts'))"

text \<open>
  A network of one concept with all four coordinates at \<open>0.4\<close>: its harmony is \<open>5/11\<close>,
  so it is in the entropic phase.
\<close>

definition entropic_concept :: SemanticConcept where
  "entropic_concept = (new_concept ''x'' LOVE)\<lparr>cL := 0.4, cJ := 0.4, cP := 0.4, cW := 0.4\<rparr>"

section \<open>Emergent fields of the neural architecture\<close>

text \<open>\<^verbatim>\<open>Tensor.clamp(min, max)\<close> on a scalar.\<close>

definition clamp :: "real \<Rightarrow> real \<Rightarrow> real \<Rightarrow> real" where
  "clamp x lo hi = min (max x lo) hi"

text \<open>
  \<^verbatim>\<open>EmergentFields.compute_love\<close> of \<^verbatim>\<open>ljpw_neural_architecture.py\<close>, on the scalar
  correlation measure: the measure is scaled by the reciprocal of the Love equilibrium \<open>L0\<close>.
\<close>

definition compute_love :: "real \<Rightarrow> real" where
  "compute_love w_correlations = (let L = w_correlations * (1 / L0) in clamp L 0 (sqrt 2))"

text \<open>\<^verbatim>\<open>EmergentFields.compute_justice\<close>, for comparison: no scaling at all.\<close>

definition compute_justice :: "real \<Rightarrow> real" where
  "compute_justice p_symmetry = clamp p_symmetry 0.2 0.9"

section \<open>Temporal evolution of the cognitive mind\<close>

text \<open>
  \<^verbatim>\<open>LJPWCognitiveMind.evolve\<close> of \<^verbatim>\<open>ljpw_cognitive_mind.py\<close>, the second integrator of the
  repository. Its neurons are the values of the dict \<^verbatim>\<open>self.neurons\<close>, distinct objects
  in insertion order.
\<close>

record SemanticNeuron =
  n_name :: string
  primary_dimension :: Dimension
  n_L :: real
  n_J :: real
  n_P :: real
  n_W :: real
  connections :: "(string \<times> real) list"

record ConsciousnessState =
  cs_L :: real
  cs_J :: real
  cs_P :: real
  cs_W :: real
  cs_H :: real
  cs_C :: real
  cs_phase :: PhaseLabel
  is_conscious :: bool
  neuron_count :: nat

definition ALPHA :: "(string \<times> real) list" where
  "ALPHA =
     [(''LJ'', 0.12), (''LW'', 0.12),
      (''JL'', 0.14), (''JW'', 0.14),
      (''PL'', 0.12), (''PJ'', 0.12),
      (''WL'', 0.10), (''WJ'', 0.10), (''WP'', 0.10)]"

definition BETA :: "(string \<times> real) list" where
  "BETA = [(''L'', 0.20), (''J'', 0.20), (''P'', 0.20), (''W'', 0.24)]"

definition GAMMA :: real where
  "GAMMA = 0.08"

definition K_JL :: real where
  "K_JL = 0.59"

text \<open>\<^verbatim>\<open>ConsciousnessMeter.measure\<close>; its phase rule compares the harmony strictly with \<open>0.6\<close>.\<close>

definition measure_neurons :: "SemanticNeuron list \<Rightarrow> ConsciousnessState" where
  "measure_neurons neurons =
     (if neurons = [] then
        \<lparr>cs_L = L0, cs_J = J0, cs_P = P0, cs_W = W0, cs_H = 0.5, cs_C = 0,
         cs_phase = ENTROPIC, is_conscious = False, neuron_count = 0\<rparr>
      else
        let L = sum_list (map n_L neurons) / real (length neurons);
            J = sum_list (map n_J neurons) / real (length neurons);
            P = sum_list (map n_P neurons) / real (length neurons);
            W = sum_list (map n_W neurons) / real (length neurons);
            d = sqrt ((1 - L)\<^sup>2 + (1 - J)\<^sup>2 + (1 - P)\<^sup>2 + (1 - W)\<^sup>2);
            H = 1 / (1 + d);
            C = L * J * P * W * H\<^sup>2;
            phase = (if H < 0.5 then ENTROPIC
                     else if H > 0.6 \<and> L \<ge> 0.7 then AUTOPOIETIC
                     else HOMEOSTATIC)
        in \<lparr>cs_L = L, cs_J = J, cs_P = P, cs_W = W, cs_H = H, cs_C = C,
            cs_phase = phase, is_conscious = (C > CONSCIOUSNESS_THRESHOLD),
            neuron_count = length neurons\<rparr>)"

text \<open>\<^verbatim>\<open>AnchorAttractor.apply\<close> on one neuron, with the attractor's \<^verbatim>\<open>strength\<close>.\<close>

definition anchor_apply :: "real \<Rightarrow> real \<Rightarrow> SemanticNeuron \<Rightarrow> SemanticNeuron" where
  "anchor_apply strength dt n =
     n\<lparr>n_L := min 1 (n_L n + strength * dt * (1 - n_L n)),
       n_J := min 1 (n_J n + strength * dt * (1 - n_J n)),
       n_P := min 1 (n_P n + strength * dt * (1 - n_P n)),
       n_W := min 1 (n_W n + strength * dt * (1 - n_W n))\<rparr>"

datatype py_error = ZeroDivisionError

text \<open>
  The body of \<^verbatim>\<open>for n in neurons\<close>: the four derivatives from the values stored at the
  start, then the clamped update. The quotient \<^verbatim>\<open>L / (K_JL + L)\<close> raises
  \<^verbatim>\<open>ZeroDivisionError\<close> when its divisor is zero; \<^verbatim>\<open>W / W0\<close> cannot, \<open>W0\<close> being \<open>ln 2\<close>.
\<close>

definition neuron_step ::
  "real \<Rightarrow> real \<Rightarrow> real \<Rightarrow> real \<Rightarrow> SemanticNeuron \<Rightarrow> py_error + SemanticNeuron" where
  "neuron_step kappa_LJ kappa_LP kappa_LW dt n =
     (let L = n_L n; J = n_J n; P = n_P n; W = n_W n;
          dL = dict_item ALPHA ''LJ'' * J * kappa_LJ + dict_item ALPHA ''LW'' * W * kappa_LW
               - dict_item BETA ''L'' * L
      in if K_JL + L = 0 then Inl ZeroDivisionError
         else
           let saturation = L / (K_JL + L);
               power_erosion = (if W < W0 then GAMMA * P * (1 - W / W0) else 0);
               dJ = dict_item ALPHA ''JL'' * saturation + dict_item ALPHA ''JW'' * W
                    - power_erosion - dict_item BETA ''J'' * J;
               dP = dict_item ALPHA ''PL'' * L * kappa_LP + dict_item ALPHA ''PJ'' * J
                    - dict_item BETA ''P'' * P;
               dW = dict_item ALPHA ''WL'' * L * kappa_LW + dict_item ALPHA ''WJ'' * J
                    + dict_item ALPHA ''WP'' * P - dict_item BETA ''W'' * W
           in Inr (n\<lparr>n_L := max 0 (min 1 (L + dL * dt)),
                      n_J := max 0 (min 1 (J + dJ * dt)),
                      n_P := max 0 (min 1 (P + dP * dt)),
                      n_W := max 0 (min 1 (W + dW * dt))\<rparr>))"

text \<open>A loop over a list whose body can raise: the first error ends it.\<close>

fun for_each :: "('a \<Rightarrow> py_error + 'b) \<Rightarrow> 'a list \<Rightarrow> py_error + 'b list" where
  "for_each f [] = Inr []"
| "for_each f (x # xs) =
     (case f x of
        Inl e \<Rightarrow> Inl e
      | Inr y \<Rightarrow> (case for_each f xs of Inl e \<Rightarrow> Inl e | Inr ys \<Rightarrow> Inr (y # ys)))"

text \<open>
  The loop \<^verbatim>\<open>for step in range(steps)\<close>: each iteration appends the state measured at
  its start. An exception ends the call; the result is then the error alone.
\<close>

fun mind_loop ::
  "nat \<Rightarrow> real \<Rightarrow> SemanticNeuron list \<Rightarrow>
   py_error + (ConsciousnessState list \<times> SemanticNeuron list)" where
  "mind_loop 0 dt neurons = Inr ([], neurons)"
| "mind_loop (Suc k) dt neurons =
     (let state = measure_neurons neurons;
          H = cs_H state;
          kappa_LJ = 1 + 0.4 * H;
          kappa_LP = 1 + 0.3 * H;
          kappa_LW = 1 + 0.5 * H
      in case for_each (neuron_step kappa_LJ kappa_LP kappa_LW dt) neurons of
           Inl e \<Rightarrow> Inl e
         | Inr neurons1 \<Rightarrow>
             (case mind_loop k dt (map (anchor_apply 0.05 dt) neurons1) of
                Inl e \<Rightarrow> Inl e
              | Inr (history, neurons2) \<Rightarrow> Inr (state # history, neurons2)))"

text \<open>
  \<^verbatim>\<open>LJPWCognitiveMind.evolve(steps, dt)\<close>: the measured final state is appended after
  the loop. The anchor attractor of the mind has strength \<open>0.05\<close>.
\<close>

definition mind_evolve ::
  "SemanticNeuron list \<Rightarrow> int \<Rightarrow> real \<Rightarrow>
   py_error + (ConsciousnessState list \<times> SemanticNeuron list)" where
  "mind_evolve neurons steps dt =
     (case mind_loop (nat steps) dt neurons of
        Inl e \<Rightarrow> Inl e
      | Inr (history, neurons') \<Rightarrow> Inr (history @ [measure_neurons neurons'], neurons'))"

text \<open>A neuron with all four coordinates at \<open>0.5\<close>.\<close>

definition half_neuron :: SemanticNeuron where
  "half_neuron = \<lparr>n_name = ''x'', primary_dimension = LOVE, n_L = 0.5, n_J = 0.5,
                   n_P = 0.5, n_W = 0.5, connections = []\<rparr>"

section \<open>The karma coefficient in double precision\<close>

text \<open>
  Whether the coefficient grows strictly with the harmony depends on the rounding of
  Python's floats, which the real-valued definitions above leave out. \<open>double_round\<close> is
  rounding to the nearest binary64 number, ties to even, for magnitudes in the normal
  range (overflow and subnormal numbers are not modelled): \<open>e\<close> is the binary exponent,
  \<open>u\<close> the unit in the last place.
\<close>

definition double_round :: "real \<Rightarrow> real" where
  "double_round x =
     (if x = 0 then 0
      else
        let e = \<lfloor>log 2 \<bar>x\<bar>\<rfloor>;
            u = 2 powr (of_int e - 52);
            q = \<bar>x\<bar> / u;
            f = \<lfloor>q\<rfloor>;
            r = (if q - of_int f < 1 / 2 then f
                 else if 1 / 2 < q - of_int f then f + 1
                 else if even f then f else f + 1)
        in sgn x * of_int r * u)"

text \<open>
  \<^verbatim>\<open>GeometricShadow.karma_coupling\<close> as the interpreter computes it on a double \<open>H\<close>: the
  literal multiplier is a double, and the product and the sum are each rounded.
\<close>

definition karma_coupling_double :: "real \<Rightarrow> string \<Rightarrow> real" where
  "karma_coupling_double H coupling_type =
     (let mult = double_round (shadow_mult coupling_type)
      in double_round (1 + double_round (mult * H)))"

section \<open>Properties\<close>

subsection \<open>Phase classification\<close>

lemma measurement_harmony_eq:
  "measurement_harmony m = harmony (m_L m) (m_J m) (m_P m) (m_W m)"
  by (simp add: measurement_harmony_def harmony_def distance_from_anchor_def)

lemma measurement_harmony_boundary:
  "measurement_harmony \<lparr>m_L = 0.7, m_J = 1, m_P = 1, m_W = 1\<rparr> = 10 / 13"
proof -
  have "sqrt ((3 / 10)\<^sup>2) = (3 / 10 :: real)" by simp
  then show ?thesis by (simp add: measurement_harmony_def Let_def)
qed

text \<open>
  The measurement \<open>(L, J, P, W) = (0.7, 1, 1, 1)\<close> has harmony \<open>10/13\<close>, above \<open>0.6\<close>, and
  Love \<open>0.7\<close>: the rule of the claim makes it AUTOPOIETIC, and
  \<^verbatim>\<open>LJPWMeasurement.phase\<close>, which asks for \<open>L > 0.7\<close>, makes it HOMEOSTATIC.
\<close>

theorem measurement_phase_boundary_counterexample:
  "measurement_harmony \<lparr>m_L = 0.7, m_J = 1, m_P = 1, m_W = 1\<rparr> \<ge> 0.6 \<and>
   m_L \<lparr>m_L = 0.7, m_J = 1, m_P = 1, m_W = 1\<rparr> \<ge> 0.7 \<and>
   measurement_phase \<lparr>m_L = 0.7, m_J = 1, m_P = 1, m_W = 1\<rparr> = HOMEOSTATIC \<and>
   determine_phase (measurement_harmony \<lparr>m_L = 0.7, m_J = 1, m_P = 1, m_W = 1\<rparr>) 0.7
     = AUTOPOIETIC"
  by (simp add: measurement_harmony_boundary measurement_phase_def determine_phase_def)

text \<open>
  C1 (amended). \<^verbatim>\<open>GeometricShadow.determine_phase\<close> is a total, deterministic function of
  the pair (Harmony, Love): \<open>H < 0.5\<close> gives ENTROPIC, \<open>H \<ge> 0.6\<close> together with \<open>L \<ge> 0.7\<close>
  gives AUTOPOIETIC, every other pair gives HOMEOSTATIC, and the four literal cases of the
  specification evaluate as listed. \<^verbatim>\<open>LJPWMeasurement.phase\<close> applies the rule to the
  measurement's own harmony and Love value with strict comparisons in the second case
  (\<open>H > 0.6\<close> and \<open>L > 0.7\<close>); it agrees with \<^verbatim>\<open>determine_phase\<close> whenever \<open>H \<noteq> 0.6\<close> and
  \<open>L \<noteq> 0.7\<close>.
\<close>

theorem determine_phase_classifies:
  "(H < 0.5 \<longrightarrow> determine_phase H L = ENTROPIC) \<and>
   (H \<ge> 0.6 \<and> L \<ge> 0.7 \<longrightarrow> determine_phase H L = AUTOPOIETIC) \<and>
   (\<not> H < 0.5 \<and> \<not> (H \<ge> 0.6 \<and> L \<ge> 0.7) \<longrightarrow> determine_phase H L = HOMEOSTATIC) \<and>
   determine_phase 0.3 0.9 = ENTROPIC \<and>
   determine_phase 0.55 0.6 = HOMEOSTATIC \<and>
   determine_phase 0.65 0.75 = AUTOPOIETIC \<and>
   determine_phase 0.6 0.69 = HOMEOSTATIC \<and>
   (measurement_harmony m < 0.5 \<longrightarrow> measurement_phase m = ENTROPIC) \<and>
   (measurement_harmony m > 0.6 \<and> m_L m > 0.7 \<longrightarrow> measurement_phase m = AUTOPOIETIC) \<and>
   (\<not> measurement_harmony m < 0.5 \<and> \<not> (measurement_harmony m > 0.6 \<and> m_L m > 0.7) \<longrightarrow>
      measurement_phase m = HOMEOSTATIC) \<and>
   (measurement_harmony m \<noteq> 0.6 \<and> m_L m \<noteq> 0.7 \<longrightarrow>
      measurement_phase m = determine_phase (measurement_harmony m) (m_L m))"
  by (auto simp: determine_phase_def measurement_phase_def)

text \<open>
  One pair for each case of \<^verbatim>\<open>determine_phase\<close>, and the anchor measurement
  \<open>(1, 1, 1, 1)\<close>, whose harmony is \<open>1\<close>, for \<^verbatim>\<open>LJPWMeasurement.phase\<close>.
\<close>

theorem determine_phase_classifies_witness:
  "(0.49::real) < 0.5 \<and> determine_phase 0.49 0.9 = ENTROPIC \<and>
   (1::real) \<ge> 0.6 \<and> (0.7::real) \<ge> 0.7 \<and> determine_phase 1 0.7 = AUTOPOIETIC \<and>
   \<not> (0.5::real) < 0.5 \<and> \<not> ((0.5::real) \<ge> 0.6 \<and> (1::real) \<ge> 0.7) \<and>
   determine_phase 0.5 1 = HOMEOSTATIC \<and>
   measurement_harmony \<lparr>m_L = 1, m_J = 1, m_P = 1, m_W = 1\<rparr> = 1 \<and>
   measurement_phase \<lparr>m_L = 1, m_J = 1, m_P = 1, m_W = 1\<rparr> = AUTOPOIETIC \<and>
   measurement_phase \<lparr>m_L = 1, m_J = 1, m_P = 1, m_W = 1\<rparr> = determine_phase 1 1"
  using determine_phase_classifies [of "0.49" "0.9" "\<lparr>m_L = 1, m_J = 1, m_P = 1, m_W = 1\<rparr>"]
        determine_phase_classifies [of 1 "0.7" "\<lparr>m_L = 1, m_J = 1, m_P = 1, m_W = 1\<rparr>"]
        determine_phase_classifies [of "0.5" 1 "\<lparr>m_L = 1, m_J = 1, m_P = 1, m_W = 1\<rparr>"]
  by (simp add: measurement_harmony_def)

subsection \<open>Anchor-mode harmony\<close>

lemma distance_from_anchor_nonneg: "0 \<le> distance_from_anchor L J P W"
  by (simp add: distance_from_anchor_def)

lemma harmony_bounds: "0 < harmony L J P W \<and> harmony L J P W \<le> 1"
  using distance_from_anchor_nonneg [of L J P W]
  by (simp add: harmony_def Let_def)

lemma harmony_anchor: "harmony 1 1 1 1 = 1"
  by (simp add: harmony_def distance_from_anchor_def)

text \<open>
  C6. For every 4-tuple of axis values in their valid ranges (Love in \<open>[0, \<surd>2]\<close>, the
  other three in \<open>[0, 1]\<close>), anchor-mode harmony \<open>1 / (1 + distance_from_anchor)\<close> lies
  in the half-open interval \<open>(0, 1]\<close>.
\<close>

theorem harmony_in_unit_interval:
  assumes "0 \<le> L" "L \<le> sqrt 2" "0 \<le> J" "J \<le> 1" "0 \<le> P" "P \<le> 1" "0 \<le> W" "W \<le> 1"
  shows "0 < harmony L J P W \<and> harmony L J P W \<le> 1"
  by (rule harmony_bounds)

text \<open>The anchor itself is a valid tuple, and the upper bound is attained there.\<close>

theorem harmony_in_unit_interval_witness:
  "(0::real) \<le> 1 \<and> 1 \<le> sqrt 2 \<and> 0 < harmony 1 1 1 1 \<and> harmony 1 1 1 1 \<le> 1"
  using harmony_in_unit_interval [of 1 1 1 1] by simp

subsection \<open>Karma coefficient\<close>

lemma karma_mult_cases:
  "karma_mult t = (if t = ''LJ'' then 0.4 else if t = ''LP'' then 0.3 else if t = ''LW'' then 0.5
     else if t = ''WL'' then 0.3 else if t = ''WJ'' then 0.2 else 0.4)"
  by (simp add: karma_mult_def dict_get_def KARMA_MULTIPLIERS_def)

lemma karma_mult_pos: "0 < karma_mult t"
  by (simp add: karma_mult_cases)

lemma shadow_mult_cases:
  "shadow_mult t =
     (if t = ''LJ'' then 0.4 else if t = ''LP'' then 0.3 else if t = ''LW'' then 0.5 else 0.4)"
  by (simp add: shadow_mult_def dict_get_def shadow_multipliers_def)

text \<open>
  The table \<^verbatim>\<open>KARMA_MULTIPLIERS\<close> has five pathways, and the multiplier of \<^verbatim>\<open>'WJ'\<close> is
  \<open>0.2\<close>, outside \<open>{0.3, 0.4, 0.5}\<close>: at \<open>H = 1\<close> its coefficient is \<open>1.2\<close>.
\<close>

theorem karma_WJ_counterexample:
  "karma_mult ''WJ'' = 0.2 \<and> karma_mult ''WJ'' \<notin> {0.3, 0.4, 0.5} \<and>
   karma_coupled_strength 1 1 ''WJ'' = 1.2"
  by (simp add: karma_coupled_strength_def karma_mult_cases)

text \<open>
  In double precision the coefficient is not strictly increasing. The harmony \<open>1/2\<close> and
  the next double above it, \<^verbatim>\<open>1/2 + 1/2^53\<close>, give the same coefficient \<open>5/4\<close> on the
  pathway \<^verbatim>\<open>'LW'\<close>: the increment of the product is below half a unit in the last place
  of the sum.
\<close>

lemma floor_log2:
  assumes "0 < x" and "2 powr (of_int e) \<le> x" and "x < 2 powr (of_int e + 1)"
  shows "\<lfloor>log 2 x\<rfloor> = e"
proof (rule floor_unique)
  show "of_int e \<le> log 2 x" using assms by (simp add: le_log_iff)
  show "log 2 x < of_int e + 1" using assms by (simp add: log_less_iff)
qed

lemma double_round_down:
  assumes "0 < x" and "2 powr (of_int e) \<le> x" and "x < 2 powr (of_int e + 1)"
    and "of_int f \<le> x / 2 powr (of_int e - 52)"
    and "x / 2 powr (of_int e - 52) - of_int f < 1 / 2"
  shows "double_round x = of_int f * 2 powr (of_int e - 52)"
proof -
  have ax: "\<bar>x\<bar> = x" using assms(1) by simp
  have e: "\<lfloor>log 2 x\<rfloor> = e" using assms(1-3) by (simp add: floor_log2)
  have "x / 2 powr (of_int e - 52) < of_int f + 1"
    using assms(5) by linarith
  then have f: "\<lfloor>x / 2 powr (of_int e - 52)\<rfloor> = f"
    using assms(4) by (intro floor_unique) simp_all
  have "double_round x =
          sgn x * of_int (if x / 2 powr (of_int e - 52) - of_int f < 1 / 2 then f
                 else if 1 / 2 < x / 2 powr (of_int e - 52) - of_int f then f + 1
                 else if even f then f else f + 1) * 2 powr (of_int e - 52)"
    using assms(1) unfolding double_round_def ax Let_def e f by simp
  then show ?thesis using assms(1,5) by simp
qed

lemma double_round_half: "double_round (1 / 2) = 1 / 2"
  using double_round_down [of "1 / 2" "- 1" "2 ^ 52"] by (simp add: powr_neg_numeral)

lemma double_round_quarter: "double_round (1 / 4) = 1 / 4"
  using double_round_down [of "1 / 4" "- 2" "2 ^ 52"] by (simp add: powr_neg_numeral)

lemma double_round_five_quarters: "double_round (5 / 4) = 5 / 4"
  using double_round_down [of "5 / 4" 0 "5 * 2 ^ 50"] by (simp add: powr_neg_numeral)

lemma double_round_next_half: "double_round (1 / 2 + 1 / 2 ^ 53) = 1 / 2 + 1 / 2 ^ 53"
  using double_round_down [of "1 / 2 + 1 / 2 ^ 53" "- 1" "2 ^ 52 + 1"]
  by (simp add: powr_neg_numeral)

lemma double_round_next_quarter: "double_round (1 / 4 + 1 / 2 ^ 54) = 1 / 4 + 1 / 2 ^ 54"
  using double_round_down [of "1 / 4 + 1 / 2 ^ 54" "- 2" "2 ^ 52 + 1"]
  by (simp add: powr_neg_numeral)

lemma double_round_increment_lost: "double_round (5 / 4 + 1 / 2 ^ 54) = 5 / 4"
  using double_round_down [of "5 / 4 + 1 / 2 ^ 54" 0 "5 * 2 ^ 50"]
  by (simp add: powr_neg_numeral)

lemma karma_coupling_double_not_strict:
  "(1 / 2 :: real) < 1 / 2 + 1 / 2 ^ 53 \<and>
   double_round (1 / 2 + 1 / 2 ^ 53) = 1 / 2 + 1 / 2 ^ 53 \<and>
   karma_coupling_double (1 / 2) ''LW'' = 5 / 4 \<and>
   karma_coupling_double (1 / 2 + 1 / 2 ^ 53) ''LW'' = 5 / 4"
proof -
  have m: "shadow_mult ''LW'' = 1 / 2" by (simp add: shadow_mult_cases)
  have p1: "(1 / 2 :: real) * (1 / 2) = 1 / 4" by simp
  have p2: "(1 / 2 :: real) * (1 / 2 + 1 / 2 ^ 53) = 1 / 4 + 1 / 2 ^ 54" by simp
  have s1: "(1 :: real) + 1 / 4 = 5 / 4" by simp
  have s2: "(1 :: real) + (1 / 4 + 1 / 2 ^ 54) = 5 / 4 + 1 / 2 ^ 54" by simp
  have a: "karma_coupling_double (1 / 2) ''LW'' = 5 / 4"
    unfolding karma_coupling_double_def Let_def m double_round_half p1 double_round_quarter s1
      double_round_five_quarters ..
  have b: "karma_coupling_double (1 / 2 + 1 / 2 ^ 53) ''LW'' = 5 / 4"
    unfolding karma_coupling_double_def Let_def m double_round_half p2 double_round_next_quarter s2
      double_round_increment_lost ..
  show ?thesis using a b double_round_next_half by simp
qed

text \<open>
  C9 (amended). For every coupling pathway the karma coefficient is
  \<open>1 + multiplier * H\<close>. The multiplier of \<^verbatim>\<open>karma_coupled_strength\<close> is drawn from
  \<open>{0.2, 0.3, 0.4, 0.5}\<close> (\<open>0.2\<close> for the pathway \<^verbatim>\<open>'WJ'\<close>, \<open>0.4\<close> for an unknown pathway);
  those of \<^verbatim>\<open>GeometricShadow.karma_coupling\<close> and of
  \<^verbatim>\<open>HarmonyMonitor.compute_karma_coupling\<close> are drawn from \<open>{0.3, 0.4, 0.5}\<close>. In each of
  the three, the coefficient of every pathway is non-decreasing in \<open>H\<close>: a higher harmony
  never gives a smaller coefficient.
\<close>

theorem karma_coefficient_form:
  "karma_mult t \<in> {0.2, 0.3, 0.4, 0.5} \<and>
   karma_coupled_strength b H t = b * (1 + karma_mult t * H) \<and>
   (H1 \<le> H2 \<longrightarrow> karma_coupled_strength 1 H1 t \<le> karma_coupled_strength 1 H2 t) \<and>
   shadow_mult t \<in> {0.3, 0.4, 0.5} \<and>
   karma_coupling H t = 1 + shadow_mult t * H \<and>
   (H1 \<le> H2 \<longrightarrow> karma_coupling H1 t \<le> karma_coupling H2 t) \<and>
   compute_karma_coupling H =
     [(''k_LJ'', 1 + 0.4 * H), (''k_LP'', 1 + 0.3 * H), (''k_LW'', 1 + 0.5 * H)] \<and>
   (H1 \<le> H2 \<longrightarrow> list_all2 (\<lambda>a b. fst a = fst b \<and> snd a \<le> snd b)
        (compute_karma_coupling H1) (compute_karma_coupling H2))"
proof -
  have m: "karma_mult t \<in> {0.2, 0.3, 0.4, 0.5}"
    by (simp add: karma_mult_cases)
  have s: "shadow_mult t \<in> {0.3, 0.4, 0.5}"
    by (simp add: shadow_mult_cases)
  have sp: "0 < shadow_mult t"
    by (simp add: shadow_mult_cases)
  have k: "karma_coupled_strength b H t = b * (1 + karma_mult t * H)"
    by (simp add: karma_coupled_strength_def Let_def)
  have mono1: "H1 \<le> H2 \<longrightarrow> karma_coupled_strength 1 H1 t \<le> karma_coupled_strength 1 H2 t"
    using karma_mult_pos [of t] by (simp add: karma_coupled_strength_def Let_def)
  have mono2: "H1 \<le> H2 \<longrightarrow> karma_coupling H1 t \<le> karma_coupling H2 t"
    using sp by (simp add: karma_coupling_def Let_def)
  have c: "karma_coupling H t = 1 + shadow_mult t * H"
    by (simp add: karma_coupling_def Let_def)
  have mono3: "H1 \<le> H2 \<longrightarrow> list_all2 (\<lambda>a b. fst a = fst b \<and> snd a \<le> snd b)
        (compute_karma_coupling H1) (compute_karma_coupling H2)"
    by (simp add: compute_karma_coupling_def)
  show ?thesis using m s k mono1 mono2 c mono3
    by (simp add: compute_karma_coupling_def)
qed

text \<open>The pathway \<^verbatim>\<open>'LW'\<close> at \<open>H = 0.2\<close> and \<open>H = 0.9\<close>, the pair the repository's test uses.\<close>

theorem karma_coefficient_form_witness:
  "(0.2::real) \<le> 0.9 \<and>
   karma_coupled_strength 1 0.2 ''LW'' \<le> karma_coupled_strength 1 0.9 ''LW'' \<and>
   karma_coupling 0.2 ''LW'' \<le> karma_coupling 0.9 ''LW'' \<and> karma_mult ''LW'' = 0.5"
  using karma_coefficient_form [of "''LW''" 1 "0.2" "0.2" "0.9"]
  by (simp add: karma_mult_cases)

subsection \<open>The uncertainty check\<close>

lemma population_std_nonneg: "0 \<le> population_std xs"
  by (auto simp: population_std_def intro!: divide_nonneg_nonneg sum_list_nonneg)

lemma sqrt_9_100: "sqrt (9 / 100) = 3 / 10"
  by (rule real_sqrt_unique) (simp_all add: power2_eq_square)

text \<open>
  Two concepts with the same Power and Wisdom values have product \<open>0\<close>, below the bound,
  and the check still reports \<^verbatim>\<open>satisfied = True\<close>: the source accepts every product
  below \<open>0.01\<close> as well.
\<close>

theorem check_uncertainty_low_variance_counterexample:
  "check_uncertainty [(''a'', new_concept ''a'' LOVE), (''b'', new_concept ''b'' LOVE)]
     = (True, 0) \<and>
   \<not> (0 \<ge> UNCERTAINTY_BOUND)"
  by (simp add: check_uncertainty_def dict_values_def Let_def new_concept_def
      UNCERTAINTY_BOUND_def)

text \<open>
  The deviations of the source are population standard deviations of the raw values, not
  sample standard deviations of the distances from equilibrium: for two concepts placed
  symmetrically around the equilibrium the source's product is \<open>0.09\<close>, and the product
  in the specification's words is \<open>0\<close>.
\<close>

lemma check_uncertainty_deviation_differs:
  "snd (check_uncertainty
     [(''a'', (new_concept ''a'' LOVE)\<lparr>cP := P0 - 0.3, cW := W0 - 0.3\<rparr>),
      (''b'', (new_concept ''b'' LOVE)\<lparr>cP := P0 + 0.3, cW := W0 + 0.3\<rparr>)]) = 0.09 \<and>
   spec_deviation P0 [P0 - 0.3, P0 + 0.3] * spec_deviation W0 [W0 - 0.3, W0 + 0.3] = 0"
  by (simp add: check_uncertainty_def dict_values_def Let_def new_concept_def
      spec_deviation_def power2_eq_square sqrt_9_100 field_simps)

text \<open>
  C2 (amended). For every population of at least 2 concepts, the uncertainty check returns
  \<open>(satisfied, product)\<close>, where \<open>product\<close> is the product of the population standard
  deviations of the raw Power values and of the raw Wisdom values (it is never negative),
  and \<open>satisfied\<close> is true if and only if \<open>product \<ge> 0.287\<close> or \<open>product < 0.01\<close>.
\<close>

theorem check_uncertainty_population:
  assumes "2 \<le> length concepts"
  shows "snd (check_uncertainty concepts) =
           population_std (map cP (dict_values concepts)) *
           population_std (map cW (dict_values concepts)) \<and>
         fst (check_uncertainty concepts) =
           (snd (check_uncertainty concepts) \<ge> UNCERTAINTY_BOUND \<or>
            snd (check_uncertainty concepts) < 0.01) \<and>
         0 \<le> snd (check_uncertainty concepts)"
proof -
  have p: "snd (check_uncertainty concepts) =
           population_std (map cP (dict_values concepts)) *
           population_std (map cW (dict_values concepts))"
    using assms
    by (simp add: check_uncertainty_def dict_values_def Let_def population_std_def)
  have s: "fst (check_uncertainty concepts) =
           (snd (check_uncertainty concepts) \<ge> UNCERTAINTY_BOUND \<or>
            snd (check_uncertainty concepts) < 0.01)"
    using assms by (simp add: check_uncertainty_def dict_values_def Let_def)
  have n: "0 \<le> snd (check_uncertainty concepts)"
    unfolding p by (intro mult_nonneg_nonneg population_std_nonneg)
  show ?thesis using p s n by blast
qed

theorem check_uncertainty_population_witness:
  "2 \<le> length [(''a'', new_concept ''a'' LOVE), (''b'', new_concept ''b'' POWER)] \<and>
   fst (check_uncertainty [(''a'', new_concept ''a'' LOVE), (''b'', new_concept ''b'' POWER)]) \<and>
   snd (check_uncertainty [(''a'', new_concept ''a'' LOVE), (''b'', new_concept ''b'' POWER)]) = 0"
  using check_uncertainty_population
    [of "[(''a'', new_concept ''a'' LOVE), (''b'', new_concept ''b'' POWER)]"]
  by (simp add: population_std_def dict_values_def new_concept_def)

text \<open>
  With no concept at all the check returns the pair \<^verbatim>\<open>(True, 1.0)\<close>: its first component
  is the verdict "satisfied", not a separate status.
\<close>

theorem check_uncertainty_empty_counterexample:
  "check_uncertainty [] = (True, 1) \<and> fst (check_uncertainty []) = True"
  by (simp add: check_uncertainty_def dict_values_def Let_def)

text \<open>
  C3 (amended). Applied to a population with fewer than 2 members, the uncertainty check
  does not raise: it returns the ordinary result pair \<^verbatim>\<open>(True, 1.0)\<close>, that is the verdict
  "satisfied" with product \<open>1.0\<close>, and no separate InsufficientData status.
\<close>

theorem check_uncertainty_insufficient:
  assumes "length concepts < 2"
  shows "check_uncertainty concepts = (True, 1)"
  using assms by (simp add: check_uncertainty_def dict_values_def Let_def)

theorem check_uncertainty_insufficient_witness:
  "length [(''a'', new_concept ''a'' WISDOM)] < 2 \<and>
   check_uncertainty [(''a'', new_concept ''a'' WISDOM)] = (True, 1)"
  using check_uncertainty_insufficient [of "[(''a'', new_concept ''a'' WISDOM)]"]
  by simp

subsection \<open>Prediction\<close>

lemma predict_loop_keeps_Some:
  "\<exists>a. fst (predict_loop s pl pj pp pw kp (Some b, bd)) = Some a"
  by (induction kp arbitrary: b bd) (auto simp: Let_def)

lemma predict_loop_finds:
  "kp \<noteq> [] \<Longrightarrow> \<exists>a. fst (predict_loop s pl pj pp pw kp (None, None)) = Some a"
  by (cases kp) (auto simp: Let_def predict_loop_keeps_Some)

lemma predict_loop_member:
  "fst (predict_loop s pl pj pp pw kp (bm, bd)) = Some a \<Longrightarrow>
   a \<in> set (dict_values kp) \<or> bm = Some a"
proof (induction kp arbitrary: bm bd)
  case Nil
  then show ?case by simp
next
  case (Cons x kp)
  obtain n known where x: "x = (n, known)" by (cases x)
  let ?d = "sqrt ((pl - cL (s known))\<^sup>2 + (pj - cJ (s known))\<^sup>2 +
                  (pp - cP (s known))\<^sup>2 + (pw - cW (s known))\<^sup>2)"
  show ?case
  proof (cases "case bd of None \<Rightarrow> True | Some b \<Rightarrow> ?d < b")
    case True
    with Cons.prems x
    have "fst (predict_loop s pl pj pp pw kp (Some known, Some ?d)) = Some a"
      by (simp add: Let_def)
    from Cons.IH [OF this] show ?thesis
      using x by (auto simp: dict_values_def)
  next
    case False
    with Cons.prems x
    have "fst (predict_loop s pl pj pp pw kp (bm, bd)) = Some a"
      by (simp add: Let_def)
    from Cons.IH [OF this] show ?thesis
      by (auto simp: dict_values_def)
  qed
qed

text \<open>
  C10. For every non-empty sequence and non-empty registry of known patterns, \<^verbatim>\<open>predict\<close>
  returns a member of the registry and, as its side effect, sets that pattern's Wisdom
  value to \<open>min 1 (W + 0.05)\<close>; every other field of that pattern and every other
  object of the store, hence every other stored pattern, is unchanged.
\<close>

theorem predict_frame:
  assumes "sequence \<noteq> []" and "known_patterns \<noteq> []"
  shows "\<exists>a. fst (predict s known_patterns sequence) = Some a \<and>
             a \<in> set (dict_values known_patterns) \<and>
             snd (predict s known_patterns sequence) a = (s a)\<lparr>cW := min 1 (cW (s a) + 0.05)\<rparr> \<and>
             (\<forall>b. b \<noteq> a \<longrightarrow> snd (predict s known_patterns sequence) b = s b)"
proof -
  let ?lst = "s (last sequence)"
  obtain tl tj tp tw where t: "(if length sequence \<ge> 2 then
                 let prev = s (sequence ! (length sequence - 2))
                 in (cL ?lst - cL prev, cJ ?lst - cJ prev, cP ?lst - cP prev, cW ?lst - cW prev)
               else (0, 0, 0, 0)) = (tl, tj, tp, tw)"
    by (metis prod_cases4)
  let ?r = "predict_loop s (min 1 (max 0 (cL ?lst + tl))) (min 1 (max 0 (cJ ?lst + tj)))
              (min 1 (max 0 (cP ?lst + tp))) (min 1 (max 0 (cW ?lst + tw))) known_patterns (None, None)"
  obtain a where a: "fst ?r = Some a"
    using predict_loop_finds [OF assms(2)] by blast
  then have mem: "a \<in> set (dict_values known_patterns)"
    using predict_loop_member [of s _ _ _ _ known_patterns None None a] by auto
  obtain bd where r: "?r = (Some a, bd)"
    using a by (cases ?r) auto
  have p: "predict s known_patterns sequence =
             (Some a, s(a := (s a)\<lparr>cW := min 1 (cW (s a) + 0.05)\<rparr>))"
    using assms t r unfolding predict_def Let_def by simp
  show ?thesis using p mem by auto
qed


text \<open>A registry holding one Wisdom concept (\<open>W = 0.9\<close>), which is also the sequence.\<close>

theorem predict_frame_witness:
  "[0::nat] \<noteq> [] \<and> [(''x'', 0::nat)] \<noteq> [] \<and>
   fst (predict (\<lambda>r. new_concept ''x'' WISDOM) [(''x'', 0)] [0]) = Some 0 \<and>
   cW (snd (predict (\<lambda>r. new_concept ''x'' WISDOM) [(''x'', 0)] [0]) 0) = 0.95 \<and>
   snd (predict (\<lambda>r. new_concept ''x'' WISDOM) [(''x'', 0)] [0]) 1 = new_concept ''x'' WISDOM"
  using predict_frame [of "[0]" "[(''x'', 0)]" "\<lambda>r. new_concept ''x'' WISDOM"]
  by (auto simp: dict_values_def new_concept_def)

subsection \<open>Bounds on the equilibrium constants\<close>

text \<open>
  Rational bounds on \<open>\<surd>5\<close>, \<open>\<surd>2\<close>, \<open>e\<close> and \<open>ln 2\<close>: the square roots by squaring,
  \<open>e\<close> and \<open>ln 2\<close> from the Maclaurin expansion of the exponential with its remainder.
\<close>

lemma sqrt5_bounds: "2.2360 < sqrt 5 \<and> sqrt 5 < 2.2362"
proof
  show "2.2360 < sqrt 5" by (rule real_less_rsqrt) (simp add: power2_eq_square)
  show "sqrt 5 < 2.2362" by (rule real_less_lsqrt) (simp_all add: power2_eq_square)
qed

lemma L0_bounds: "0.6180 < L0 \<and> L0 < 0.6181"
  using sqrt5_bounds by (simp add: L0_def PHI_INV_def PHI_def)

lemma exp_1_le_3: "exp (1::real) \<le> 3"
  using exp_bound [of 1] by simp

lemma sum9: "(\<Sum>m<9. 1 / fact m) = (109601 / 40320 :: real)"
  by (simp add: eval_nat_numeral lessThan_Suc fact_numeral)

lemma exp_1_bounds: "2.71827 < exp (1::real) \<and> exp (1::real) < 2.71829"
proof -
  obtain t :: real where t: "\<bar>t\<bar> \<le> \<bar>1\<bar>"
    and e: "exp 1 = (\<Sum>m<9. (1::real) ^ m / fact m) + (exp t / fact 9) * 1 ^ 9"
    using Maclaurin_exp_le [of 1 9] by blast
  have "exp t \<le> exp 1" using t by simp
  then have hi: "exp t \<le> 3" using exp_1_le_3 by linarith
  have lo: "0 < exp t" by simp
  have f9: "fact 9 = (362880::real)" by (simp add: fact_numeral)
  have "exp 1 = 109601 / 40320 + exp t / 362880"
    using e by (simp add: sum9 f9)
  then have "271827 / 100000 < exp (1::real) \<and> exp (1::real) < 271829 / 100000"
    using hi lo by (intro conjI; linarith)
  then show ?thesis by simp
qed


lemma exp_693_upper: "exp (693 / 1000 :: real) < 2"
proof -
  obtain t :: real where t: "\<bar>t\<bar> \<le> \<bar>693 / 1000\<bar>"
    and e: "exp (693 / 1000) = (\<Sum>m<7. (693 / 1000 :: real) ^ m / fact m)
              + (exp t / fact 7) * (693 / 1000) ^ 7"
    using Maclaurin_exp_le [of "693 / 1000" 7] by blast
  have "t \<le> 1" using t by simp
  then have "exp t \<le> exp 1" by simp
  then have hi: "exp t \<le> 3" using exp_1_le_3 by linarith
  have "(exp t / fact 7) * (693 / 1000) ^ 7 \<le> (3 / fact 7) * (693 / 1000 :: real) ^ 7"
    using hi by (intro mult_right_mono divide_right_mono) simp_all
  moreover have "(\<Sum>m<7. (693 / 1000 :: real) ^ m / fact m) + (3 / fact 7) * (693 / 1000) ^ 7 < 2"
    by (simp add: eval_nat_numeral lessThan_Suc fact_numeral)
  ultimately show ?thesis using e by linarith
qed

lemma exp_694_lower: "2 < exp (694 / 1000 :: real)"
proof -
  obtain t :: real where
    e: "exp (694 / 1000) = (\<Sum>m<7. (694 / 1000 :: real) ^ m / fact m)
              + (exp t / fact 7) * (694 / 1000) ^ 7"
    using Maclaurin_exp_le [of "694 / 1000" 7] by blast
  have "0 \<le> (exp t / fact 7) * (694 / 1000 :: real) ^ 7"
    by (intro mult_nonneg_nonneg divide_nonneg_nonneg) simp_all
  moreover have "2 < (\<Sum>m<7. (694 / 1000 :: real) ^ m / fact m)"
    by (simp add: eval_nat_numeral lessThan_Suc fact_numeral)
  ultimately show ?thesis using e by linarith
qed

lemma ln2_bounds: "0.693 < ln (2::real) \<and> ln (2::real) < 0.694"
proof -
  have "exp (693 / 1000 :: real) < exp (ln 2)" using exp_693_upper by simp
  then have lo: "693 / 1000 < ln (2::real)" by (simp only: exp_less_cancel_iff)
  have "exp (ln 2) < exp (694 / 1000 :: real)" using exp_694_lower by simp
  then have hi: "ln (2::real) < 694 / 1000" by (simp only: exp_less_cancel_iff)
  show ?thesis using lo hi by simp
qed

lemma P0_bounds: "0.71827 < P0 \<and> P0 < 0.71829"
  using exp_1_bounds by (simp add: P0_def)

lemma W0_bounds: "0.693 < W0 \<and> W0 < 0.694"
  using ln2_bounds by (simp add: W0_def)

lemma sqrt2_bounds: "1.4142 < sqrt 2 \<and> sqrt 2 < 1.4143"
proof
  show "1.4142 < sqrt 2" by (rule real_less_rsqrt) (simp add: power2_eq_square)
  show "sqrt 2 < 1.4143" by (rule real_less_lsqrt) (simp_all add: power2_eq_square)
qed

lemma J0_bounds: "0.4142 < J0 \<and> J0 < 0.4143"
  using sqrt2_bounds by (simp add: J0_def)

lemma gap_square_bounds:
  fixes a b c :: real
  assumes "a < c" "c < b" "b \<le> 1"
  shows "(1 - b)\<^sup>2 < (1 - c)\<^sup>2 \<and> (1 - c)\<^sup>2 < (1 - a)\<^sup>2"
  using assms by (simp add: power2_eq_square mult_strict_mono)

lemma equilibrium_distance_square_bounds:
  "0.6618 < (1 - L0)\<^sup>2 + (1 - J0)\<^sup>2 + (1 - P0)\<^sup>2 + (1 - W0)\<^sup>2 \<and>
   (1 - L0)\<^sup>2 + (1 - J0)\<^sup>2 + (1 - P0)\<^sup>2 + (1 - W0)\<^sup>2 < 0.6628"
proof -
  have l: "(1 - 0.6181)\<^sup>2 < (1 - L0)\<^sup>2 \<and> (1 - L0)\<^sup>2 < (1 - 0.6180)\<^sup>2"
    using L0_bounds by (intro gap_square_bounds) simp_all
  have j: "(1 - 0.4143)\<^sup>2 < (1 - J0)\<^sup>2 \<and> (1 - J0)\<^sup>2 < (1 - 0.4142)\<^sup>2"
    using J0_bounds by (intro gap_square_bounds) simp_all
  have p: "(1 - 0.71829)\<^sup>2 < (1 - P0)\<^sup>2 \<and> (1 - P0)\<^sup>2 < (1 - 0.71827)\<^sup>2"
    using P0_bounds by (intro gap_square_bounds) simp_all
  have w: "(1 - 0.694)\<^sup>2 < (1 - W0)\<^sup>2 \<and> (1 - W0)\<^sup>2 < (1 - 0.693)\<^sup>2"
    using W0_bounds by (intro gap_square_bounds) simp_all
  have l': "14584761 / 100000000 < (1 - L0)\<^sup>2 \<and> (1 - L0)\<^sup>2 < 145924 / 1000000"
    using l by (simp add: power2_eq_square)
  have j': "34304449 / 100000000 < (1 - J0)\<^sup>2 \<and> (1 - J0)\<^sup>2 < 34316164 / 100000000"
    using j by (simp add: power2_eq_square)
  have p': "793 / 10000 < (1 - P0)\<^sup>2 \<and> (1 - P0)\<^sup>2 < 794 / 10000"
    using p by (simp add: power2_eq_square)
  have w': "93636 / 1000000 < (1 - W0)\<^sup>2 \<and> (1 - W0)\<^sup>2 < 94249 / 1000000"
    using w by (simp add: power2_eq_square)
  have "6618 / 10000 < (1 - L0)\<^sup>2 + (1 - J0)\<^sup>2 + (1 - P0)\<^sup>2 + (1 - W0)\<^sup>2 \<and>
        (1 - L0)\<^sup>2 + (1 - J0)\<^sup>2 + (1 - P0)\<^sup>2 + (1 - W0)\<^sup>2 < 6628 / 10000"
    using l' j' p' w' by (intro conjI; linarith)
  then show ?thesis by simp
qed

lemma equilibrium_distance_bounds:
  "0.8135 < distance_from_anchor L0 J0 P0 W0 \<and> distance_from_anchor L0 J0 P0 W0 < 0.8142"
proof
  show "0.8135 < distance_from_anchor L0 J0 P0 W0"
    unfolding distance_from_anchor_def
    by (rule real_less_rsqrt) (use equilibrium_distance_square_bounds in \<open>simp add: power2_eq_square\<close>)
  show "distance_from_anchor L0 J0 P0 W0 < 0.8142"
    unfolding distance_from_anchor_def
    by (rule real_less_lsqrt) (use equilibrium_distance_square_bounds in \<open>simp_all add: power2_eq_square\<close>)
qed

lemma harmony_equilibrium_bounds:
  "0.5512 < harmony L0 J0 P0 W0 \<and> harmony L0 J0 P0 W0 < 0.5515"
proof -
  let ?d = "distance_from_anchor L0 J0 P0 W0"
  have d: "8135 / 10000 < ?d \<and> ?d < 8142 / 10000"
    using equilibrium_distance_bounds by simp
  then have pos: "0 < 1 + ?d" by linarith
  have "5512 / 10000 * (1 + ?d) < 1" using d by (simp add: algebra_simps)
  then have lo: "5512 / 10000 < 1 / (1 + ?d)"
    using pos by (simp add: pos_less_divide_eq)
  have "1 < 5515 / 10000 * (1 + ?d)" using d by (simp add: algebra_simps)
  then have hi: "1 / (1 + ?d) < 5515 / 10000"
    using pos by (simp add: pos_divide_less_eq)
  show ?thesis using lo hi by (simp add: harmony_def Let_def)
qed

subsection \<open>Harmony at the equilibrium point\<close>

text \<open>
  At the equilibrium point anchor-mode harmony is above \<open>0.55\<close>: it is not within \<open>0.1\<close>
  of \<open>0.422\<close>.
\<close>

theorem harmony_equilibrium_counterexample:
  "0.55 < harmony L0 J0 P0 W0 \<and> \<not> \<bar>harmony L0 J0 P0 W0 - 0.422\<bar> < 0.1"
  using harmony_equilibrium_bounds by simp

text \<open>
  C7 (amended). Anchor-mode harmony evaluated at the equilibrium point
  \<open>(L0, J0, P0, W0)\<close> is the fixed number
  \<open>1 / (1 + \<surd>((1 - L0)\<^sup>2 + (1 - J0)\<^sup>2 + (1 - P0)\<^sup>2 + (1 - W0)\<^sup>2))\<close>, approximately
  \<open>0.5513\<close>: it lies strictly between \<open>0.5512\<close> and \<open>0.5515\<close>.
\<close>

theorem harmony_equilibrium_value:
  "harmony L0 J0 P0 W0 =
     1 / (1 + sqrt ((1 - L0)\<^sup>2 + (1 - J0)\<^sup>2 + (1 - P0)\<^sup>2 + (1 - W0)\<^sup>2)) \<and>
   0.5512 < harmony L0 J0 P0 W0 \<and> harmony L0 J0 P0 W0 < 0.5515"
  using harmony_equilibrium_bounds
  by (simp add: harmony_def distance_from_anchor_def)

subsection \<open>The emergent Love field\<close>

lemma L0_pos: "0 < L0"
  using L0_bounds by simp

lemma compute_love_inner:
  assumes "0 \<le> c / L0" and "c / L0 \<le> sqrt 2"
  shows "compute_love c = c / L0"
  using assms by (simp add: compute_love_def clamp_def Let_def)

lemma half_over_L0: "0 \<le> (1 / 2) / L0 \<and> (1 / 2) / L0 \<le> sqrt 2"
proof -
  have "(1 / 2) / L0 < (1 / 2) / (6180 / 10000)"
    using L0_bounds by (intro divide_strict_left_mono) simp_all
  then have "(1 / 2) / L0 < sqrt 2" using sqrt2_bounds by simp
  moreover have "0 < (1 / 2) / L0" using L0_pos by simp
  ultimately show ?thesis by simp
qed

lemma clamp_le_pos: "0 < x \<Longrightarrow> clamp x 0 hi \<le> x"
  by (simp add: clamp_def)

lemma clamp_other_equilibrium:
  assumes "L0 < e"
  shows "clamp ((1 / 2) * (1 / e)) 0 (sqrt 2) < compute_love (1 / 2)"
proof -
  have e: "0 < e" using assms L0_pos by linarith
  have "(1 / 2) / e < (1 / 2) / L0"
    using assms L0_pos by (intro divide_strict_left_mono) simp_all
  moreover have "clamp ((1 / 2) * (1 / e)) 0 (sqrt 2) \<le> (1 / 2) / e"
    using clamp_le_pos [of "(1 / 2) * (1 / e)" "sqrt 2"] e by simp
  moreover have "compute_love (1 / 2) = (1 / 2) / L0"
    using half_over_L0 by (intro compute_love_inner) simp_all
  ultimately show ?thesis by linarith
qed

text \<open>
  For the correlation measure \<open>0.5\<close> the emergent Love value is \<open>0.5 / L0\<close>, about
  \<open>0.809\<close>. Scaling by the reciprocal of the equilibrium of either fundamental axis,
  Wisdom (\<open>W0\<close>) or Power (\<open>P0\<close>), gives a smaller value.
\<close>

theorem compute_love_counterexample:
  "compute_love 0.5 \<noteq> clamp (0.5 * (1 / W0)) 0 (sqrt 2) \<and>
   compute_love 0.5 \<noteq> clamp (0.5 * (1 / P0)) 0 (sqrt 2)"
proof -
  have "L0 < W0" and "L0 < P0"
    using L0_bounds W0_bounds P0_bounds by simp_all
  then show ?thesis
    using clamp_other_equilibrium [of W0] clamp_other_equilibrium [of P0] by simp
qed

text \<open>
  C8 (amended). For every correlation measure value \<open>c\<close>, the emergent Love value is
  \<open>clamp (c * (1 / L0)) 0 (\<surd>2)\<close>: the measure scaled by the reciprocal of the
  equilibrium constant \<open>L0\<close> of the emergent Love axis itself, and clamped to
  \<open>[0, \<surd>2]\<close>. It is \<open>0\<close> for \<open>c \<le> 0\<close>, \<open>\<surd>2\<close> for \<open>c \<ge> \<surd>2 * L0\<close>, and \<open>c / L0\<close> in
  between.
\<close>

theorem compute_love_scaling:
  "compute_love c = clamp (c * (1 / L0)) 0 (sqrt 2) \<and>
   compute_love c = (if c \<le> 0 then 0 else if sqrt 2 * L0 \<le> c then sqrt 2 else c / L0) \<and>
   0 \<le> compute_love c \<and> compute_love c \<le> sqrt 2"
proof -
  have a: "compute_love c = clamp (c * (1 / L0)) 0 (sqrt 2)"
    by (simp add: compute_love_def)
  have b: "compute_love c = (if c \<le> 0 then 0 else if sqrt 2 * L0 \<le> c then sqrt 2 else c / L0)"
  proof (cases "c \<le> 0")
    case True
    then have "c / L0 \<le> 0" using L0_pos by (simp add: divide_nonpos_pos)
    then show ?thesis using True by (simp add: compute_love_def clamp_def Let_def)
  next
    case False
    then have pos: "0 < c / L0" using L0_pos by simp
    show ?thesis
    proof (cases "sqrt 2 * L0 \<le> c")
      case True
      then have "sqrt 2 \<le> c / L0" using L0_pos by (simp add: pos_le_divide_eq)
      then show ?thesis using True False pos
        by (simp add: compute_love_def clamp_def Let_def)
    next
      case nb: False
      then have "c / L0 < sqrt 2" using L0_pos by (simp add: pos_divide_less_eq)
      then show ?thesis using nb False pos
        by (simp add: compute_love_def clamp_def Let_def)
    qed
  qed
  have c: "0 \<le> compute_love c \<and> compute_love c \<le> sqrt 2"
    by (simp add: compute_love_def clamp_def)
  show ?thesis using a b c by blast
qed

subsection \<open>Temporal evolution\<close>

text \<open>Lemmas on \<^verbatim>\<open>SemanticFlowNetwork.evolve\<close>.\<close>

lemma COUPLING_items:
  "dict_item COUPLING ''W_to_L'' = 1.3 \<and> dict_item COUPLING ''L_to_W'' = 1.5"
  by (simp add: COUPLING_def dict_item_def)

lemma evolve_loop_length: "length (fst (evolve_loop n step dt state concepts)) = n"
  by (induction n arbitrary: step state concepts) (simp_all add: Let_def case_prod_beta)

lemma evolve_history:
  "length (fst (evolve concepts steps dt)) = nat steps + 1 \<and>
   hd (fst (evolve concepts steps dt)) = get_state concepts"
  using evolve_loop_length [of "nat steps" 0 dt "get_state concepts" concepts]
  by (simp add: evolve_def Let_def case_prod_beta)

lemma evolve_no_steps: "steps \<le> 0 \<Longrightarrow> evolve concepts steps dt = ([get_state concepts], concepts)"
  by (simp add: evolve_def)

lemma sqrt_36_25: "sqrt (36 / 25) = 6 / 5"
  by (rule real_sqrt_unique) (simp_all add: power2_eq_square)

lemma get_state_entropic_concept:
  "st_phase (get_state [(''x'', entropic_concept)]) = ENTROPIC"
  by (simp add: get_state_def dict_values_def Let_def entropic_concept_def harmony_def
      distance_from_anchor_def determine_phase_def power2_eq_square sqrt_36_25)

lemma evolve_concept_ENTROPIC_cJ:
  "cJ (evolve_concept ENTROPIC H dt c) = max 0 (min 1 (cJ c + J0 * (J0 - cJ c)))"
  by (simp add: evolve_concept_def balance_def constrain_def Let_def)

lemma resonate_single: "resonate [c] H cycles = [c]"
  by (simp add: resonate_def)

lemma evolve_one_step_single:
  "snd (evolve [(k, c)] 1 dt) =
     [(k, evolve_concept (st_phase (get_state [(k, c)])) (st_H (get_state [(k, c)])) dt c)]"
  by (simp add: evolve_def Let_def case_prod_beta dict_values_def resonate_single)

lemma entropic_concept_cJ: "cJ entropic_concept = 0.4"
  by (simp add: entropic_concept_def)

lemma entropic_concept_moves: "0.4 < cJ (evolve_concept ENTROPIC H dt entropic_concept)"
proof -
  have lo: "0 < J0 * (J0 - 0.4)" using J0_bounds by simp
  have "J0 * (J0 - 0.4) < 1 * (1 / 10)"
    by (rule mult_strict_mono) (use J0_bounds in simp_all)
  then have hi: "0.4 + J0 * (J0 - 0.4) < 1" by simp
  have "cJ (evolve_concept ENTROPIC H dt entropic_concept) = 0.4 + J0 * (J0 - 0.4)"
    using lo hi by (simp add: evolve_concept_ENTROPIC_cJ entropic_concept_cJ)
  then show ?thesis using lo by simp
qed

text \<open>Lemmas on \<^verbatim>\<open>LJPWCognitiveMind.evolve\<close>.\<close>

lemma ALPHA_items:
  "dict_item ALPHA ''LJ'' = 0.12 \<and> dict_item ALPHA ''LW'' = 0.12 \<and>
   dict_item ALPHA ''JL'' = 0.14 \<and> dict_item ALPHA ''JW'' = 0.14 \<and>
   dict_item ALPHA ''PL'' = 0.12 \<and> dict_item ALPHA ''PJ'' = 0.12 \<and>
   dict_item ALPHA ''WL'' = 0.10 \<and> dict_item ALPHA ''WJ'' = 0.10 \<and>
   dict_item ALPHA ''WP'' = 0.10"
  by (simp add: ALPHA_def dict_item_def)

lemma BETA_items:
  "dict_item BETA ''L'' = 0.20 \<and> dict_item BETA ''J'' = 0.20 \<and>
   dict_item BETA ''P'' = 0.20 \<and> dict_item BETA ''W'' = 0.24"
  by (simp add: BETA_def dict_item_def)

lemma neuron_step_valid:
  assumes "0 \<le> n_L n"
  shows "\<exists>n'. neuron_step kj kp kw dt n = Inr n' \<and> 0 \<le> n_L n' \<and> n_L n' \<le> 1"
proof -
  have "K_JL + n_L n \<noteq> 0" using assms by (simp add: K_JL_def)
  then show ?thesis by (simp add: neuron_step_def Let_def)
qed

lemma for_each_all:
  assumes "\<forall>x\<in>set xs. \<exists>y. f x = Inr y \<and> Q y"
  shows "\<exists>ys. for_each f xs = Inr ys \<and> (\<forall>y\<in>set ys. Q y)"
  using assms
proof (induction xs)
  case Nil
  then show ?case by simp
next
  case (Cons x xs)
  then obtain y where y: "f x = Inr y" "Q y" by auto
  from Cons obtain ys where ys: "for_each f xs = Inr ys" "\<forall>y\<in>set ys. Q y" by auto
  show ?case using y ys by simp
qed

lemma anchor_apply_L:
  assumes "0 \<le> n_L n" "n_L n \<le> 1" "0 \<le> dt"
  shows "0 \<le> n_L (anchor_apply 0.05 dt n)"
proof -
  have "0 \<le> 0.05 * dt * (1 - n_L n)" using assms by simp
  then show ?thesis using assms by (simp add: anchor_apply_def)
qed

lemma mind_loop_valid:
  assumes "0 \<le> dt" and "\<forall>n\<in>set neurons. 0 \<le> n_L n"
  shows "\<exists>history neurons'. mind_loop k dt neurons = Inr (history, neurons') \<and>
           length history = k \<and> (history \<noteq> [] \<longrightarrow> hd history = measure_neurons neurons)"
  using assms(2)
proof (induction k arbitrary: neurons)
  case 0
  then show ?case by simp
next
  case (Suc k)
  let ?H = "cs_H (measure_neurons neurons)"
  let ?f = "neuron_step (1 + 0.4 * ?H) (1 + 0.3 * ?H) (1 + 0.5 * ?H) dt"
  have "\<forall>n\<in>set neurons. \<exists>n'. ?f n = Inr n' \<and> (0 \<le> n_L n' \<and> n_L n' \<le> 1)"
    using Suc.prems neuron_step_valid by blast
  then obtain neurons1 where n1: "for_each ?f neurons = Inr neurons1"
      and r: "\<forall>n\<in>set neurons1. 0 \<le> n_L n \<and> n_L n \<le> 1"
    using for_each_all [of neurons ?f "\<lambda>n'. 0 \<le> n_L n' \<and> n_L n' \<le> 1"] by blast
  have "\<forall>n\<in>set (map (anchor_apply 0.05 dt) neurons1). 0 \<le> n_L n"
    using r assms(1) anchor_apply_L by auto
  from Suc.IH [OF this] obtain history neurons2 where
    h: "mind_loop k dt (map (anchor_apply 0.05 dt) neurons1) = Inr (history, neurons2)"
       "length history = k"
    by blast
  show ?case using n1 h by (simp add: Let_def)
qed

lemma mind_evolve_no_steps:
  "steps \<le> 0 \<Longrightarrow> mind_evolve neurons steps dt = Inr ([measure_neurons neurons], neurons)"
  by (simp add: mind_evolve_def)

lemma mind_evolve_history:
  assumes "0 \<le> dt" and "\<forall>n\<in>set neurons. 0 \<le> n_L n"
  shows "\<exists>history neurons'. mind_evolve neurons steps dt = Inr (history, neurons') \<and>
           length history = nat steps + 1 \<and> hd history = measure_neurons neurons"
proof -
  obtain history neurons' where
    h: "mind_loop (nat steps) dt neurons = Inr (history, neurons')"
       "length history = nat steps"
       "history \<noteq> [] \<longrightarrow> hd history = measure_neurons neurons"
    using mind_loop_valid [OF assms] by blast
  show ?thesis
  proof (cases "history = []")
    case True
    then have "nat steps = 0" using h(2) by simp
    then have "neurons' = neurons" using h(1) by simp
    then show ?thesis using h True by (simp add: mind_evolve_def)
  next
    case False
    then show ?thesis using h by (simp add: mind_evolve_def)
  qed
qed

lemma mind_evolve_one_step:
  assumes "\<forall>n\<in>set neurons. 0 \<le> n_L n"
  shows "\<exists>history neurons'. mind_evolve neurons 1 dt = Inr (history, neurons') \<and>
           length history = 2 \<and> hd history = measure_neurons neurons"
proof -
  let ?H = "cs_H (measure_neurons neurons)"
  let ?f = "neuron_step (1 + 0.4 * ?H) (1 + 0.3 * ?H) (1 + 0.5 * ?H) dt"
  have "\<forall>n\<in>set neurons. \<exists>n'. ?f n = Inr n' \<and> (0 \<le> n_L n' \<and> n_L n' \<le> 1)"
    using assms neuron_step_valid by blast
  then obtain neurons1 where "for_each ?f neurons = Inr neurons1"
    using for_each_all [of neurons ?f "\<lambda>n'. 0 \<le> n_L n' \<and> n_L n' \<le> 1"] by blast
  then show ?thesis by (simp add: mind_evolve_def Let_def)
qed

lemma neuron_step_L:
  assumes "K_JL + n_L n \<noteq> 0"
  shows "\<exists>n1. neuron_step kj kp kw dt n = Inr n1 \<and>
           n_L n1 = max 0 (min 1 (n_L n +
             (dict_item ALPHA ''LJ'' * n_J n * kj + dict_item ALPHA ''LW'' * n_W n * kw
              - dict_item BETA ''L'' * n_L n) * dt))"
  using assms by (simp add: neuron_step_def Let_def)

lemma mind_evolve_single_step:
  assumes "neuron_step (1 + 0.4 * cs_H (measure_neurons [n])) (1 + 0.3 * cs_H (measure_neurons [n]))
             (1 + 0.5 * cs_H (measure_neurons [n])) dt n = Inr n1"
  shows "mind_evolve [n] 1 dt =
           Inr ([measure_neurons [n], measure_neurons [anchor_apply 0.05 dt n1]],
                [anchor_apply 0.05 dt n1])"
  using assms by (simp add: mind_evolve_def Let_def)

lemma half_neuron_harmony: "cs_H (measure_neurons [half_neuron]) = 1 / 2"
  by (simp add: measure_neurons_def half_neuron_def Let_def power2_eq_square)

lemma half_neuron_step:
  "\<exists>n'. mind_evolve [half_neuron] 1 (- 0.1) =
           Inr ([measure_neurons [half_neuron], measure_neurons [n']], [n']) \<and>
         n_L n' < 0.5"
proof -
  let ?H = "cs_H (measure_neurons [half_neuron])"
  have "K_JL + n_L half_neuron \<noteq> 0" by (simp add: K_JL_def half_neuron_def)
  from neuron_step_L [OF this, of "1 + 0.4 * ?H" "1 + 0.3 * ?H" "1 + 0.5 * ?H" "- 0.1"]
  obtain n1 where
    s: "neuron_step (1 + 0.4 * ?H) (1 + 0.3 * ?H) (1 + 0.5 * ?H) (- 0.1) half_neuron = Inr n1"
    and l: "n_L n1 = max 0 (min 1 (n_L half_neuron +
             (dict_item ALPHA ''LJ'' * n_J half_neuron * (1 + 0.4 * ?H)
              + dict_item ALPHA ''LW'' * n_W half_neuron * (1 + 0.5 * ?H)
              - dict_item BETA ''L'' * n_L half_neuron) * (- 0.1)))"
    by blast
  have nl: "n_L n1 = 4953 / 10000"
    unfolding l half_neuron_harmony by (simp add: half_neuron_def ALPHA_items BETA_items)
  have "n_L (anchor_apply 0.05 (- 0.1) n1) = min 1 (n_L n1 + 0.05 * (- 0.1) * (1 - n_L n1))"
    by (simp add: anchor_apply_def)
  then have "n_L (anchor_apply 0.05 (- 0.1) n1) < 0.5"
    unfolding nl by simp
  then show ?thesis using mind_evolve_single_step [OF s] by blast
qed
text \<open>
  With \<open>dt = -0.1\<close> and one step, the call on the entropic one-concept network returns a
  history of two states and has moved the concept's Justice value; the cognitive mind
  likewise returns two states and has lowered its neuron's Love value. Nothing is
  rejected, and the state is changed.
\<close>

theorem evolve_negative_dt_counterexample:
  "length (fst (evolve [(''x'', entropic_concept)] 1 (- 0.1))) = 2 \<and>
   snd (evolve [(''x'', entropic_concept)] 1 (- 0.1)) \<noteq> [(''x'', entropic_concept)] \<and>
   \<not> isl (mind_evolve [half_neuron] 1 (- 0.1)) \<and>
   length (fst (projr (mind_evolve [half_neuron] 1 (- 0.1)))) = 2 \<and>
   snd (projr (mind_evolve [half_neuron] 1 (- 0.1))) \<noteq> [half_neuron]"
proof -
  have "snd (evolve [(''x'', entropic_concept)] 1 (- 0.1)) =
          [(''x'', evolve_concept ENTROPIC (st_H (get_state [(''x'', entropic_concept)])) (- 0.1)
                     entropic_concept)]"
    by (simp only: evolve_one_step_single get_state_entropic_concept)
  moreover have "evolve_concept ENTROPIC (st_H (get_state [(''x'', entropic_concept)])) (- 0.1)
                   entropic_concept \<noteq> entropic_concept"
    using entropic_concept_moves
            [of "st_H (get_state [(''x'', entropic_concept)])" "- 0.1"]
          entropic_concept_cJ
    by auto
  ultimately have a: "snd (evolve [(''x'', entropic_concept)] 1 (- 0.1)) \<noteq> [(''x'', entropic_concept)]"
    by simp
  have b: "length (fst (evolve [(''x'', entropic_concept)] 1 (- 0.1))) = 2"
    using evolve_history [of "[(''x'', entropic_concept)]" 1 "- 0.1"] by simp
  obtain history neurons' where
    m: "mind_evolve [half_neuron] 1 (- 0.1) = Inr (history, neurons')" "length history = 2"
    using mind_evolve_one_step [of "[half_neuron]" "- 0.1"] by (auto simp: half_neuron_def)
  have "n_L (hd neurons') < 0.5" using half_neuron_step m by auto
  then have c: "neurons' \<noteq> [half_neuron]" by (auto simp: half_neuron_def)
  show ?thesis using a b c m by simp
qed

lemma neuron_step_defined:
  assumes "n_L n \<noteq> - 0.59"
  shows "\<exists>n'. neuron_step kj kp kw dt n = Inr n' \<and> 0 \<le> n_L n' \<and> n_L n' \<le> 1"
proof -
  have "K_JL + n_L n \<noteq> 0" using assms by (simp add: K_JL_def)
  then show ?thesis by (simp add: neuron_step_def Let_def)
qed

lemma neuron_step_raises:
  assumes "n_L n = - 0.59"
  shows "neuron_step kj kp kw dt n = Inl ZeroDivisionError"
  using assms by (simp add: neuron_step_def Let_def K_JL_def)

lemma for_each_raises:
  assumes "x \<in> set xs" and "f x = Inl ZeroDivisionError"
  shows "for_each f xs = Inl ZeroDivisionError"
  using assms
proof (induction xs)
  case Nil
  then show ?case by simp
next
  case (Cons y ys)
  show ?case
  proof (cases "f y")
    case (Inl e)
    then show ?thesis by (cases e) simp
  next
    case (Inr z)
    then have "x \<in> set ys" using Cons.prems by auto
    then have "for_each f ys = Inl ZeroDivisionError" using Cons by simp
    then show ?thesis using Inr by simp
  qed
qed

lemma mind_evolve_raises:
  assumes "1 \<le> steps" and "n \<in> set neurons" and "n_L n = - 0.59"
  shows "mind_evolve neurons steps dt = Inl ZeroDivisionError"
proof -
  obtain k where k: "nat steps = Suc k"
    using assms(1) by (cases "nat steps") simp_all
  let ?H = "cs_H (measure_neurons neurons)"
  have "for_each (neuron_step (1 + 0.4 * ?H) (1 + 0.3 * ?H) (1 + 0.5 * ?H) dt) neurons
          = Inl ZeroDivisionError"
    using assms(2) neuron_step_raises [OF assms(3)] by (rule for_each_raises)
  then have "mind_loop (Suc k) dt neurons = Inl ZeroDivisionError"
    by (simp add: Let_def)
  then show ?thesis by (simp add: mind_evolve_def k)
qed

lemma mind_evolve_defined:
  assumes "0 \<le> dt" and "\<forall>n\<in>set neurons. n_L n \<noteq> - 0.59"
  shows "\<exists>history neurons'. mind_evolve neurons steps dt = Inr (history, neurons') \<and>
           length history = nat steps + 1 \<and> hd history = measure_neurons neurons"
proof (cases "nat steps")
  case 0
  then show ?thesis by (simp add: mind_evolve_def)
next
  case (Suc k)
  let ?H = "cs_H (measure_neurons neurons)"
  let ?f = "neuron_step (1 + 0.4 * ?H) (1 + 0.3 * ?H) (1 + 0.5 * ?H) dt"
  have "\<forall>n\<in>set neurons. \<exists>n'. ?f n = Inr n' \<and> (0 \<le> n_L n' \<and> n_L n' \<le> 1)"
    using assms(2) neuron_step_defined by blast
  then obtain neurons1 where n1: "for_each ?f neurons = Inr neurons1"
      and r: "\<forall>n\<in>set neurons1. 0 \<le> n_L n \<and> n_L n \<le> 1"
    using for_each_all [of neurons ?f "\<lambda>n'. 0 \<le> n_L n' \<and> n_L n' \<le> 1"] by blast
  have "\<forall>n\<in>set (map (anchor_apply 0.05 dt) neurons1). 0 \<le> n_L n"
    using r assms(1) anchor_apply_L by auto
  from mind_loop_valid [OF assms(1) this, of k] obtain history neurons2 where
    h: "mind_loop k dt (map (anchor_apply 0.05 dt) neurons1) = Inr (history, neurons2)"
       "length history = k"
    by blast
  have "mind_loop (Suc k) dt neurons = Inr (measure_neurons neurons # history, neurons2)"
    using n1 h(1) by (simp add: Let_def)
  then show ?thesis using h(2) Suc by (simp add: mind_evolve_def)
qed

text \<open>
  A neuron whose Love value is \<open>-0.59\<close> makes the divisor \<^verbatim>\<open>K_JL + L\<close> zero: with
  \<open>dt = 0.1 > 0\<close> and one step, \<^verbatim>\<open>LJPWCognitiveMind.evolve\<close> raises
  \<^verbatim>\<open>ZeroDivisionError\<close> and returns no trajectory.
\<close>

theorem mind_evolve_zero_division_counterexample:
  "(0 :: real) < 0.1 \<and> (0 :: int) \<le> 1 \<and>
   mind_evolve [half_neuron\<lparr>n_L := - 0.59\<rparr>] 1 0.1 = Inl ZeroDivisionError"
  using mind_evolve_raises [of 1 "half_neuron\<lparr>n_L := - 0.59\<rparr>"
          "[half_neuron\<lparr>n_L := - 0.59\<rparr>]" "0.1"]
  by simp

text \<open>
  C5 (amended). For every network, every positive \<open>dt\<close> and every \<open>steps \<ge> 0\<close>,
  \<^verbatim>\<open>SemanticFlowNetwork.evolve\<close> returns a history of length \<open>steps + 1\<close> whose first
  element is the measured state of the input, and with \<open>steps = 0\<close> the history is that
  state alone and nothing is changed. \<^verbatim>\<open>LJPWCognitiveMind.evolve\<close> does the same exactly
  when \<open>steps = 0\<close> or no neuron has the Love value \<open>-0.59\<close>; with \<open>steps \<ge> 1\<close> and a neuron
  whose Love value is \<open>-0.59\<close> it raises \<^verbatim>\<open>ZeroDivisionError\<close>.
\<close>

theorem evolve_trajectory:
  assumes "0 < dt" and "0 \<le> steps"
  shows "length (fst (evolve concepts steps dt)) = nat steps + 1 \<and>
         hd (fst (evolve concepts steps dt)) = get_state concepts \<and>
         evolve concepts 0 dt = ([get_state concepts], concepts) \<and>
         (steps = 0 \<or> (\<forall>n\<in>set neurons. n_L n \<noteq> - 0.59) \<longrightarrow>
            (\<exists>history neurons'. mind_evolve neurons steps dt = Inr (history, neurons') \<and>
               length history = nat steps + 1 \<and> hd history = measure_neurons neurons)) \<and>
         (1 \<le> steps \<and> (\<exists>n\<in>set neurons. n_L n = - 0.59) \<longrightarrow>
            mind_evolve neurons steps dt = Inl ZeroDivisionError) \<and>
         mind_evolve neurons 0 dt = Inr ([measure_neurons neurons], neurons)"
proof -
  have dt: "0 \<le> dt" using assms(1) by simp
  have zero: "mind_evolve neurons 0 dt = Inr ([measure_neurons neurons], neurons)"
    by (simp add: mind_evolve_no_steps)
  have ok: "steps = 0 \<or> (\<forall>n\<in>set neurons. n_L n \<noteq> - 0.59) \<longrightarrow>
            (\<exists>history neurons'. mind_evolve neurons steps dt = Inr (history, neurons') \<and>
               length history = nat steps + 1 \<and> hd history = measure_neurons neurons)"
    using mind_evolve_defined [OF dt, of neurons steps] zero by auto
  have bad: "1 \<le> steps \<and> (\<exists>n\<in>set neurons. n_L n = - 0.59) \<longrightarrow>
            mind_evolve neurons steps dt = Inl ZeroDivisionError"
    using mind_evolve_raises [of steps _ neurons dt] by blast
  show ?thesis
    using evolve_history [of concepts steps dt] evolve_no_steps [of 0 concepts dt] zero ok bad
    by simp
qed

text \<open>
  Ten steps of \<open>0.1\<close> on the entropic one-concept network and on the neuron at \<open>0.5\<close>;
  the same ten steps on a neuron at \<open>-0.59\<close> raise.
\<close>

theorem evolve_trajectory_witness:
  "(0::real) < 0.1 \<and> (0::int) \<le> 10 \<and> n_L half_neuron \<noteq> - 0.59 \<and>
   length (fst (evolve [(''x'', entropic_concept)] 10 0.1)) = 11 \<and>
   hd (fst (evolve [(''x'', entropic_concept)] 10 0.1)) = get_state [(''x'', entropic_concept)] \<and>
   (\<exists>history neurons'. mind_evolve [half_neuron] 10 0.1 = Inr (history, neurons') \<and>
      length history = 11 \<and> hd history = measure_neurons [half_neuron]) \<and>
   mind_evolve [half_neuron\<lparr>n_L := - 0.59\<rparr>] 10 0.1 = Inl ZeroDivisionError"
  using evolve_trajectory [where dt = "0.1" and steps = 10 and neurons = "[half_neuron]"
          and concepts = "[(''x'', entropic_concept)]"]
        evolve_trajectory [where dt = "0.1" and steps = 10
          and neurons = "[half_neuron\<lparr>n_L := - 0.59\<rparr>]"
          and concepts = "[(''x'', entropic_concept)]"]
  by (simp add: half_neuron_def)

text \<open>
  C4 (amended). Neither evolver checks \<open>dt\<close>. For every network, every step count and every
  \<open>dt \<le> 0\<close>, \<^verbatim>\<open>SemanticFlowNetwork.evolve\<close> returns, as for a positive \<open>dt\<close>, a history
  of length \<open>steps + 1\<close> that starts with the measured input state; the concepts are
  certain to be unchanged only when \<open>steps \<le> 0\<close>. \<^verbatim>\<open>LJPWCognitiveMind.evolve\<close> with
  \<open>dt \<le> 0\<close> returns the measured input state alone when \<open>steps \<le> 0\<close>, and its first
  step on neurons with nonnegative Love values always succeeds.
\<close>

theorem evolve_unchecked_dt:
  assumes "dt \<le> 0"
  shows "length (fst (evolve concepts steps dt)) = nat steps + 1 \<and>
         hd (fst (evolve concepts steps dt)) = get_state concepts \<and>
         (steps \<le> 0 \<longrightarrow> snd (evolve concepts steps dt) = concepts) \<and>
         (steps \<le> 0 \<longrightarrow>
            mind_evolve neurons steps dt = Inr ([measure_neurons neurons], neurons)) \<and>
         ((\<forall>n\<in>set neurons. 0 \<le> n_L n) \<longrightarrow>
            (\<exists>history neurons'. mind_evolve neurons 1 dt = Inr (history, neurons') \<and>
               length history = 2 \<and> hd history = measure_neurons neurons))"
  using evolve_history [of concepts steps dt] evolve_no_steps [of steps concepts dt]
        mind_evolve_no_steps [of steps neurons dt] mind_evolve_one_step [of neurons dt]
  by simp

theorem evolve_unchecked_dt_witness:
  "(- 0.1 :: real) \<le> 0 \<and> 0 \<le> n_L half_neuron \<and>
   length (fst (evolve [(''x'', entropic_concept)] 1 (- 0.1))) = 2 \<and>
   hd (fst (evolve [(''x'', entropic_concept)] 1 (- 0.1))) = get_state [(''x'', entropic_concept)] \<and>
   snd (evolve [(''x'', entropic_concept)] 0 (- 0.1)) = [(''x'', entropic_concept)] \<and>
   mind_evolve [half_neuron] 0 (- 0.1) = Inr ([measure_neurons [half_neuron]], [half_neuron]) \<and>
   (\<exists>history neurons'. mind_evolve [half_neuron] 1 (- 0.1) = Inr (history, neurons') \<and>
      length history = 2 \<and> hd history = measure_neurons [half_neuron])"
  using evolve_unchecked_dt [where dt = "- 0.1" and steps = 1 and neurons = "[half_neuron]"
          and concepts = "[(''x'', entropic_concept)]"]
        evolve_unchecked_dt [where dt = "- 0.1" and steps = 0 and neurons = "[half_neuron]"
          and concepts = "[(''x'', entropic_concept)]"]
  by (simp add: half_neuron_def)


end
